theory Spec2Isabelle
  imports Main
begin

section \<open>nRF51 code generator: interrupt table and macro emitter\<close>

text \<open>
  A shallow embedding of \<^verbatim>\<open>tools/nRF51_codegen.py\<close>. The script reads the
  peripherals of a device from an SVD parser (an external library), builds a table of 32
  interrupt names and prints two C macros into a header file.

  The device is a parameter of the model: a list of peripherals, each with its list of
  interrupt entries, in the order the parser yields them. Python's exceptions are values
  of a sum type. The output file is the list of the strings printed to it, one per call
  of \<^verbatim>\<open>print\<close>; \<open>file_contents\<close> gives the characters in the file.
  The \<^verbatim>\<open>assert\<close> statement is modelled as the interpreter runs it by
  default (the script's interpreter line passes no optimisation flag).
\<close>

subsection \<open>Data\<close>

record interrupt =
  intr_name :: string
  intr_value :: int

record peripheral =
  periph_interrupts :: "interrupt list"

datatype py_error = AssertionError | IndexError

type_synonym outfile = "string list"

type_synonym filesystem = "string \<rightharpoonup> outfile"

subsection \<open>Python primitives the script uses\<close>

text \<open>
  Indexing a list of length \<open>n\<close> with the integer \<open>i\<close>: a negative index counts from
  the end, and an index outside \<open>-n .. n-1\<close> raises IndexError (here \<open>None\<close>).
\<close>

definition py_index :: "nat \<Rightarrow> int \<Rightarrow> nat option" where
  "py_index n i =
     (let j = (if i < 0 then int n + i else i)
      in if 0 \<le> j \<and> j < int n then Some (nat j) else None)"

text \<open>\<^verbatim>\<open>print(s, file=outfile)\<close>: one more printed string.\<close>

definition print_to :: "string \<Rightarrow> outfile \<Rightarrow> outfile" where
  "print_to s outfile = outfile @ [s]"

text \<open>The characters of the file: every printed string is followed by a newline.\<close>

definition file_contents :: "outfile \<Rightarrow> string" where
  "file_contents outfile = concat (map (\<lambda>s. s @ [CHR 0x0A]) outfile)"

subsection \<open>The interrupt table builder\<close>

text \<open>
  The body of the inner loop of \<^verbatim>\<open>get_peripheral_interrupts\<close>:
  \<^verbatim>\<open>
  if interrupts[intr.value]:
      assert interrupts[intr.value] == intr.name
  else:
      interrupts[intr.value] = intr.name
  \<close>
  A string is true in a condition when it is not empty.
\<close>

definition record_interrupt :: "string list \<Rightarrow> interrupt \<Rightarrow> py_error + string list" where
  "record_interrupt interrupts intr =
     (case py_index (length interrupts) (intr_value intr) of
        None \<Rightarrow> Inl IndexError
      | Some j \<Rightarrow>
          if interrupts ! j \<noteq> [] then
            (if interrupts ! j = intr_name intr then Inr interrupts else Inl AssertionError)
          else Inr (interrupts[j := intr_name intr]))"

text \<open>\<^verbatim>\<open>for intr in peripheral.interrupts\<close>: the first exception ends the loop.\<close>

fun for_interrupts :: "string list \<Rightarrow> interrupt list \<Rightarrow> py_error + string list" where
  "for_interrupts interrupts [] = Inr interrupts"
| "for_interrupts interrupts (intr # rest) =
     (case record_interrupt interrupts intr of
        Inl e \<Rightarrow> Inl e
      | Inr interrupts' \<Rightarrow> for_interrupts interrupts' rest)"

text \<open>\<^verbatim>\<open>for peripheral in parser.get_device().peripherals\<close>.\<close>

fun for_peripherals :: "string list \<Rightarrow> peripheral list \<Rightarrow> py_error + string list" where
  "for_peripherals interrupts [] = Inr interrupts"
| "for_peripherals interrupts (p # rest) =
     (case for_interrupts interrupts (periph_interrupts p) of
        Inl e \<Rightarrow> Inl e
      | Inr interrupts' \<Rightarrow> for_peripherals interrupts' rest)"

definition get_peripheral_interrupts :: "peripheral list \<Rightarrow> py_error + string list" where
  "get_peripheral_interrupts peripherals = for_peripherals (replicate 32 []) peripherals"

subsection \<open>The macro emitter\<close>

definition continuation :: string where
  "continuation = [CHR 0x20, CHR 0x5C]"

definition tab :: string where
  "tab = [CHR 0x09]"

text \<open>
  The loop of \<^verbatim>\<open>dump_as_c_macro\<close> over \<^verbatim>\<open>enumerate(lines)\<close>;
  \<open>len\<close> is \<^verbatim>\<open>len(lines)\<close> and \<open>n\<close> the running index.
\<close>

fun dump_lines :: "nat \<Rightarrow> nat \<Rightarrow> nat \<Rightarrow> string list \<Rightarrow> outfile \<Rightarrow> outfile" where
  "dump_lines len indent n [] outfile = outfile"
| "dump_lines len indent n (line # rest) outfile =
     (let line1 = concat (replicate indent tab) @ line;
          line2 = (if int n < int len - 1 then line1 @ continuation else line1)
      in dump_lines len indent (Suc n) rest (print_to line2 outfile))"

definition dump_as_c_macro :: "string \<Rightarrow> string list \<Rightarrow> outfile \<Rightarrow> nat \<Rightarrow> outfile" where
  "dump_as_c_macro name lines outfile indent =
     dump_lines (length lines) indent 0 lines
       (print_to (''#define '' @ name @ continuation) outfile)"

text \<open>The first loop of \<^verbatim>\<open>dump_macros\<close>: one entry of the vector table per slot.\<close>

fun vector_lines :: "string list \<Rightarrow> string list \<Rightarrow> string list" where
  "vector_lines lines [] = lines"
| "vector_lines lines (name # rest) =
     (if name \<noteq> [] then vector_lines (lines @ [name @ ''_Handler,'']) rest
      else vector_lines (lines @ [''0, /* Reserved */'']) rest)"

text \<open>The text of one weak-alias declaration, as the second loop concatenates it.\<close>

definition weak_alias :: "string \<Rightarrow> string" where
  "weak_alias name =
     (''void '' @ name @ ''_Handler(void) __attribute__ '') @
     (''((weak, alias('' @ [CHR 0x22] @ ''Dummy_Handler'' @ [CHR 0x22] @ '')));'')"

text \<open>The second loop of \<^verbatim>\<open>dump_macros\<close>: empty names are skipped.\<close>

fun handler_lines :: "string list \<Rightarrow> string list \<Rightarrow> string list" where
  "handler_lines lines [] = lines"
| "handler_lines lines (name # rest) =
     (if name = [] then handler_lines lines rest
      else handler_lines (lines @ [weak_alias name]) rest)"

definition dump_macros :: "string list \<Rightarrow> outfile \<Rightarrow> outfile" where
  "dump_macros interrupts outfile =
     (let outfile1 = print_to ''/* Automatically generated by nRF51_codegen.py */'' outfile;
          outfile2 = dump_as_c_macro ''PERIPHERAL_INTERRUPT_VECTORS''
                       (vector_lines [] interrupts) outfile1 1
      in dump_as_c_macro ''PERIPHERAL_INTERRUPT_HANDLERS''
           (handler_lines [] interrupts) outfile2 0)"

subsection \<open>The script\<close>

definition target_path :: string where
  "target_path = ''src/chips/nrf51822/peripheral_interrupts.h''"

text \<open>
  \<^verbatim>\<open>main\<close>: the table is built first; only then is the target opened for
  writing (which empties it) and the macros printed. An exception of the builder leaves
  the file system as it was.
\<close>

definition main :: "peripheral list \<Rightarrow> filesystem \<Rightarrow> (py_error + unit) \<times> filesystem" where
  "main peripherals fs =
     (case get_peripheral_interrupts peripherals of
        Inl e \<Rightarrow> (Inl e, fs)
      | Inr interrupts \<Rightarrow> (Inr (), fs(target_path \<mapsto> dump_macros interrupts [])))"

section \<open>Properties of the table builder\<close>

lemma py_index_Some_iff:
  "py_index n i = Some j \<longleftrightarrow>
     (0 \<le> i \<and> i < int n \<and> j = nat i) \<or> (- int n \<le> i \<and> i < 0 \<and> j = nat (int n + i))"
  by (auto simp: py_index_def Let_def)

lemma py_index_None_iff: "py_index n i = None \<longleftrightarrow> i < - int n \<or> int n \<le> i"
  by (auto simp: py_index_def Let_def)

lemma py_index_less: "py_index n i = Some j \<Longrightarrow> j < n"
  by (auto simp: py_index_def Let_def split: if_splits)

lemma record_interrupt_length:
  "record_interrupt t x = Inr t' \<Longrightarrow> length t' = length t"
  by (auto simp: record_interrupt_def split: option.splits if_splits)

lemma for_interrupts_length:
  "for_interrupts t xs = Inr t' \<Longrightarrow> length t' = length t"
proof (induction xs arbitrary: t)
  case Nil
  then show ?case by simp
next
  case (Cons x xs)
  then obtain t1 where s: "record_interrupt t x = Inr t1" and r: "for_interrupts t1 xs = Inr t'"
    by (auto split: sum.splits)
  from Cons.IH [OF r] record_interrupt_length [OF s] show ?case by simp
qed

lemma for_interrupts_append:
  "for_interrupts t (xs @ ys) =
     (case for_interrupts t xs of Inl e \<Rightarrow> Inl e | Inr t' \<Rightarrow> for_interrupts t' ys)"
  by (induction xs arbitrary: t) (auto split: sum.splits)

lemma for_peripherals_concat:
  "for_peripherals t ps = for_interrupts t (concat (map periph_interrupts ps))"
  by (induction ps arbitrary: t) (auto simp: for_interrupts_append split: sum.splits)

lemma get_peripheral_interrupts_length:
  "get_peripheral_interrupts ps = Inr tbl \<Longrightarrow> length tbl = 32"
  by (auto simp: get_peripheral_interrupts_def for_peripherals_concat
      dest: for_interrupts_length)

text \<open>A slot that holds a name keeps it through one step and through the loop.\<close>

lemma record_interrupt_keeps:
  "record_interrupt t x = Inr t' \<Longrightarrow> t ! j \<noteq> [] \<Longrightarrow> t' ! j = t ! j"
  by (auto simp: record_interrupt_def nth_list_update
      split: option.splits if_splits dest: py_index_less)

lemma for_interrupts_keeps:
  "for_interrupts t xs = Inr t' \<Longrightarrow> t ! j \<noteq> [] \<Longrightarrow> t' ! j = t ! j"
proof (induction xs arbitrary: t)
  case Nil
  then show ?case by simp
next
  case (Cons x xs)
  then obtain t1 where s: "record_interrupt t x = Inr t1" and r: "for_interrupts t1 xs = Inr t'"
    by (auto split: sum.splits)
  have k: "t1 ! j = t ! j" using record_interrupt_keeps [OF s Cons.prems(2)] .
  with Cons.prems(2) have "t1 ! j \<noteq> []" by simp
  from Cons.IH [OF r this] k show ?case by simp
qed

text \<open>After a step that returns, the slot of a named entry holds that name.\<close>

lemma record_interrupt_recorded:
  "record_interrupt t x = Inr t' \<Longrightarrow> intr_name x \<noteq> [] \<Longrightarrow>
     \<exists>j. py_index (length t) (intr_value x) = Some j \<and> t' ! j = intr_name x"
  by (auto simp: record_interrupt_def split: option.splits if_splits dest: py_index_less)

lemma for_interrupts_recorded:
  "for_interrupts t xs = Inr t' \<Longrightarrow> a \<in> set xs \<Longrightarrow> intr_name a \<noteq> [] \<Longrightarrow>
     \<exists>j. py_index (length t) (intr_value a) = Some j \<and> t' ! j = intr_name a"
proof (induction xs arbitrary: t)
  case Nil
  then show ?case by simp
next
  case (Cons x xs)
  then obtain t1 where s: "record_interrupt t x = Inr t1" and r: "for_interrupts t1 xs = Inr t'"
    by (auto split: sum.splits)
  have len: "length t1 = length t" using record_interrupt_length [OF s] .
  show ?case
  proof (cases "a = x")
    case True
    from record_interrupt_recorded [OF s] Cons.prems(3) True
    obtain j where j: "py_index (length t) (intr_value a) = Some j" "t1 ! j = intr_name a"
      by auto
    with Cons.prems(3) have "t1 ! j \<noteq> []" by simp
    from for_interrupts_keeps [OF r this] j show ?thesis by auto
  next
    case False
    with Cons.prems(2) have "a \<in> set xs" by simp
    from Cons.IH [OF r this Cons.prems(3)] len show ?thesis by simp
  qed
qed

text \<open>IndexError comes from an entry whose number is outside the table.\<close>

lemma for_interrupts_IndexError:
  "for_interrupts t xs = Inl IndexError \<Longrightarrow>
     \<exists>x\<in>set xs. py_index (length t) (intr_value x) = None"
proof (induction xs arbitrary: t)
  case Nil
  then show ?case by simp
next
  case (Cons x xs)
  show ?case
  proof (cases "record_interrupt t x")
    case (Inl e)
    with Cons.prems have "record_interrupt t x = Inl IndexError" by simp
    then have "py_index (length t) (intr_value x) = None"
      by (auto simp: record_interrupt_def split: option.splits if_splits)
    then show ?thesis by simp
  next
    case (Inr t1)
    with Cons.prems have r: "for_interrupts t1 xs = Inl IndexError" by simp
    from Cons.IH [OF r] record_interrupt_length [OF Inr] show ?thesis by auto
  qed
qed

lemma for_interrupts_out_of_range:
  "x \<in> set xs \<Longrightarrow> py_index (length t) (intr_value x) = None \<Longrightarrow>
     \<exists>e. for_interrupts t xs = Inl e"
proof (induction xs arbitrary: t)
  case Nil
  then show ?case by simp
next
  case (Cons y xs)
  show ?case
  proof (cases "record_interrupt t y")
    case (Inl e)
    then show ?thesis by simp
  next
    case (Inr t1)
    have len: "length t1 = length t" using record_interrupt_length [OF Inr] .
    have "x \<noteq> y" using Inr Cons.prems(2) by (auto simp: record_interrupt_def)
    with Cons.prems(1) have "x \<in> set xs" by simp
    from Cons.IH [OF this, of t1] Cons.prems(2) len Inr show ?thesis by simp
  qed
qed

text \<open>
  On return, a slot holds the name of the first named entry, in the order of the loops,
  whose number indexes that slot, and is empty when there is none.
\<close>

lemma for_interrupts_first:
  "for_interrupts t xs = Inr t' \<Longrightarrow> j < length t \<Longrightarrow>
     t' ! j =
       (if t ! j \<noteq> [] then t ! j
        else case find (\<lambda>e. py_index (length t) (intr_value e) = Some j \<and> intr_name e \<noteq> []) xs of
               None \<Rightarrow> []
             | Some e \<Rightarrow> intr_name e)"
proof (induction xs arbitrary: t)
  case Nil
  then show ?case by simp
next
  case (Cons x xs)
  then obtain t1 where s: "record_interrupt t x = Inr t1" and r: "for_interrupts t1 xs = Inr t'"
    by (auto split: sum.splits)
  have len: "length t1 = length t" using record_interrupt_length [OF s] .
  with Cons.prems(2) have j1: "j < length t1" by simp
  note ih = Cons.IH [OF r j1, unfolded len]
  show ?case
  proof (cases "t ! j \<noteq> []")
    case True
    with for_interrupts_keeps [OF Cons.prems(1)] show ?thesis by simp
  next
    case empty: False
    show ?thesis
    proof (cases "py_index (length t) (intr_value x) = Some j \<and> intr_name x \<noteq> []")
      case True
      with s empty Cons.prems(2) have "t1 ! j = intr_name x"
        by (auto simp: record_interrupt_def)
      with True ih empty show ?thesis by simp
    next
      case False
      with s empty Cons.prems(2) have "t1 ! j = []"
        by (auto simp: record_interrupt_def nth_list_update
            split: option.splits if_splits dest: py_index_less)
      with False ih empty show ?thesis by auto
    qed
  qed
qed

text \<open>
  A description whose numbers all index the table, and in which entries of one slot carry
  one name, makes the builder return.
\<close>

lemma for_interrupts_consistent:
  "\<forall>x\<in>set xs. py_index (length t) (intr_value x) \<noteq> None \<Longrightarrow>
   \<forall>x\<in>set xs. \<forall>j. py_index (length t) (intr_value x) = Some j \<longrightarrow> t ! j \<noteq> []
      \<longrightarrow> t ! j = intr_name x \<Longrightarrow>
   \<forall>x\<in>set xs. \<forall>y\<in>set xs.
      py_index (length t) (intr_value x) = py_index (length t) (intr_value y)
      \<longrightarrow> intr_name x = intr_name y \<Longrightarrow>
   \<exists>t'. for_interrupts t xs = Inr t'"
proof (induction xs arbitrary: t)
  case Nil
  then show ?case by simp
next
  case (Cons x xs)
  note p1 = Cons.prems(1) [rule_format]
  note p2 = Cons.prems(2) [rule_format]
  note p3 = Cons.prems(3) [rule_format]
  have xin: "x \<in> set (x # xs)" by simp
  have sub: "y \<in> set (x # xs)" if "y \<in> set xs" for y using that by simp
  from p1 [OF xin] obtain j where j: "py_index (length t) (intr_value x) = Some j"
    by blast
  then have jl: "j < length t" by (rule py_index_less)
  show ?case
  proof (cases "t ! j \<noteq> []")
    case True
    from p2 [OF xin j True] have "t ! j = intr_name x" .
    with True j have s: "record_interrupt t x = Inr t" by (simp add: record_interrupt_def)
    have "\<exists>t'. for_interrupts t xs = Inr t'"
    proof (rule Cons.IH; intro ballI allI impI)
      fix y assume "y \<in> set xs"
      then show "py_index (length t) (intr_value y) \<noteq> None" by (rule p1 [OF sub])
    next
      fix y k assume "y \<in> set xs" "py_index (length t) (intr_value y) = Some k" "t ! k \<noteq> []"
      then show "t ! k = intr_name y" by (rule p2 [OF sub])
    next
      fix y z assume "y \<in> set xs" "z \<in> set xs"
        "py_index (length t) (intr_value y) = py_index (length t) (intr_value z)"
      then show "intr_name y = intr_name z" by (intro p3 sub)
    qed
    with s show ?thesis by simp
  next
    case False
    with j have s: "record_interrupt t x = Inr (t[j := intr_name x])"
      by (simp add: record_interrupt_def)
    have "\<exists>t'. for_interrupts (t[j := intr_name x]) xs = Inr t'"
    proof (rule Cons.IH; intro ballI allI impI)
      fix y assume "y \<in> set xs"
      from p1 [OF sub [OF this]]
      show "py_index (length (t[j := intr_name x])) (intr_value y) \<noteq> None"
        by simp
    next
      fix y k assume y: "y \<in> set xs"
        and k: "py_index (length (t[j := intr_name x])) (intr_value y) = Some k"
        and ne: "t[j := intr_name x] ! k \<noteq> []"
      from k have k': "py_index (length t) (intr_value y) = Some k" by simp
      show "t[j := intr_name x] ! k = intr_name y"
      proof (cases "k = j")
        case True
        with k' j have "py_index (length t) (intr_value x) = py_index (length t) (intr_value y)"
          by simp
        from p3 [OF xin sub [OF y] this] have "intr_name x = intr_name y" .
        with True jl show ?thesis by simp
      next
        case False
        with ne have "t ! k \<noteq> []" by simp
        from p2 [OF sub [OF y] k' this] have "t ! k = intr_name y" .
        with False show ?thesis by simp
      qed
    next
      fix y z assume y: "y \<in> set xs" and z: "z \<in> set xs"
        and "py_index (length (t[j := intr_name x])) (intr_value y)
           = py_index (length (t[j := intr_name x])) (intr_value z)"
      then have "py_index (length t) (intr_value y) = py_index (length t) (intr_value z)"
        by simp
      from p3 [OF sub [OF y] sub [OF z] this] show "intr_name y = intr_name z" .
    qed
    with s show ?thesis by simp
  qed
qed

text \<open>
  The loop after a prefix of the entries that was recorded without error: the next entry
  is recorded in the table the prefix left, and its exception ends the loop.
\<close>

lemma for_interrupts_split:
  "for_interrupts t pre = Inr u \<Longrightarrow>
     for_interrupts t (pre @ x # post) =
       (case record_interrupt u x of Inl e \<Rightarrow> Inl e | Inr u' \<Rightarrow> for_interrupts u' post)"
  by (simp add: for_interrupts_append)

lemma for_interrupts_prefix_error:
  "for_interrupts t pre = Inl e \<Longrightarrow> for_interrupts t (pre @ post) = Inl e"
  by (simp add: for_interrupts_append)

text \<open>
  IndexError is raised exactly when an entry whose number is outside the table is reached,
  the entries before it having been recorded without error.
\<close>

lemma for_interrupts_IndexError_iff:
  "for_interrupts t es = Inl IndexError \<longleftrightarrow>
     (\<exists>pre x post u. es = pre @ x # post \<and> for_interrupts t pre = Inr u
        \<and> py_index (length t) (intr_value x) = None)"
proof
  show "\<exists>pre x post u. es = pre @ x # post \<and> for_interrupts t pre = Inr u
        \<and> py_index (length t) (intr_value x) = None"
    if "for_interrupts t es = Inl IndexError"
    using that
  proof (induction es arbitrary: t)
    case Nil
    then show ?case by simp
  next
    case (Cons y ys)
    show ?case
    proof (cases "record_interrupt t y")
      case (Inl e)
      with Cons.prems have "record_interrupt t y = Inl IndexError" by simp
      then have n: "py_index (length t) (intr_value y) = None"
        by (auto simp: record_interrupt_def split: option.splits if_splits)
      have "y # ys = [] @ y # ys \<and> for_interrupts t [] = Inr t" by simp
      with n show ?thesis by blast
    next
      case (Inr t1)
      with Cons.prems have r: "for_interrupts t1 ys = Inl IndexError" by simp
      have len: "length t1 = length t" using record_interrupt_length [OF Inr] .
      from Cons.IH [OF r] obtain pre x post u
        where ys: "ys = pre @ x # post" and p: "for_interrupts t1 pre = Inr u"
          and n: "py_index (length t1) (intr_value x) = None"
        by blast
      from ys have "y # ys = (y # pre) @ x # post" by simp
      moreover from p Inr have "for_interrupts t (y # pre) = Inr u" by simp
      moreover from n len have "py_index (length t) (intr_value x) = None" by simp
      ultimately show ?thesis by blast
    qed
  qed
next
  assume "\<exists>pre x post u. es = pre @ x # post \<and> for_interrupts t pre = Inr u
        \<and> py_index (length t) (intr_value x) = None"
  then obtain pre x post u
    where es: "es = pre @ x # post" and p: "for_interrupts t pre = Inr u"
      and n: "py_index (length t) (intr_value x) = None"
    by blast
  from for_interrupts_length [OF p] n have "record_interrupt u x = Inl IndexError"
    by (simp add: record_interrupt_def)
  with for_interrupts_split [OF p, of x post] es show "for_interrupts t es = Inl IndexError"
    by simp
qed

lemma py_error_cases: "e = AssertionError \<or> e = IndexError"
  by (cases e) simp_all

text \<open>The step at a number that indexes slot \<open>k\<close>.\<close>

lemma record_interrupt_slot:
  "py_index (length t) (intr_value x) = Some k \<Longrightarrow>
     record_interrupt t x =
       (if t ! k \<noteq> [] then (if t ! k = intr_name x then Inr t else Inl AssertionError)
        else Inr (t[k := intr_name x]))"
  by (simp add: record_interrupt_def)

text \<open>
  A later entry that names a slot differently from an earlier named entry fails the
  assertion, when every entry before it indexes the table.
\<close>

lemma for_interrupts_conflict:
  assumes es: "es = pre @ b # post" and a: "a \<in> set pre"
    and v: "intr_value a = intr_value b"
    and na: "intr_name a \<noteq> []" and ne: "intr_name a \<noteq> intr_name b"
    and rng: "\<forall>x\<in>set pre. py_index (length t) (intr_value x) \<noteq> None"
  shows "for_interrupts t es = Inl AssertionError"
proof (cases "for_interrupts t pre")
  case (Inl e)
  have "e \<noteq> IndexError"
  proof
    assume "e = IndexError"
    with Inl for_interrupts_IndexError [of t pre]
    obtain x where "x \<in> set pre" "py_index (length t) (intr_value x) = None" by auto
    with rng show False by blast
  qed
  with py_error_cases [of e] have "e = AssertionError" by simp
  with Inl for_interrupts_prefix_error [of t pre e "b # post"] es show ?thesis by simp
next
  case (Inr u)
  from for_interrupts_recorded [OF Inr a na]
  obtain j where j: "py_index (length t) (intr_value a) = Some j" and s: "u ! j = intr_name a"
    by blast
  from for_interrupts_length [OF Inr] j v
  have "py_index (length u) (intr_value b) = Some j" by simp
  from record_interrupt_slot [OF this] s na ne
  have "record_interrupt u b = Inl AssertionError" by simp
  with for_interrupts_split [OF Inr, of b post] es show ?thesis by simp
qed

section \<open>Properties of the macro emitter\<close>

lemma vector_lines_eq:
  "vector_lines acc tbl =
     acc @ map (\<lambda>name. if name \<noteq> [] then name @ ''_Handler,'' else ''0, /* Reserved */'') tbl"
  by (induction tbl arbitrary: acc) auto

lemma handler_lines_eq:
  "handler_lines acc tbl = acc @ map weak_alias (filter (\<lambda>name. name \<noteq> []) tbl)"
  by (induction tbl arbitrary: acc) auto

lemma dump_lines_eq:
  "dump_lines len indent n ls out =
     out @ map (\<lambda>(k, l). concat (replicate indent tab) @ l @
                  (if k + 1 < len then continuation else []))
             (zip [n..<n + length ls] ls)"
proof (induction ls arbitrary: n out)
  case Nil
  then show ?case by simp
next
  case (Cons l ls)
  have z: "zip [n..<n + length (l # ls)] (l # ls) = (n, l) # zip [Suc n..<Suc n + length ls] ls"
  proof -
    have "[n..<n + length (l # ls)] = n # [Suc n..<Suc n + length ls]"
      by (subst upt_conv_Cons) simp_all
    then show ?thesis by simp
  qed
  have c: "(int n < int len - 1) = (n + 1 < len)" by auto
  show ?case
    unfolding z by (simp add: Cons.IH print_to_def Let_def c del: upt_Suc)
qed

lemma zip_upt_map:
  "map (\<lambda>(k, l). f k l) (zip [0..<length ls] ls) = map (\<lambda>i. f i (ls ! i)) [0..<length ls]"
  by (rule nth_equalityI) auto

lemma dump_as_c_macro_eq:
  "dump_as_c_macro name ls out indent =
     out @ (''#define '' @ name @ continuation) #
       map (\<lambda>i. concat (replicate indent tab) @ ls ! i @
                  (if i + 1 < length ls then continuation else []))
         [0..<length ls]"
  unfolding dump_as_c_macro_def dump_lines_eq print_to_def
  using zip_upt_map [of "\<lambda>k l. concat (replicate indent tab) @ l @
                  (if k + 1 < length ls then continuation else [])" ls]
  by simp

lemma dump_macros_eq:
  "dump_macros tbl out =
     out @ [''/* Automatically generated by nRF51_codegen.py */'',
            ''#define PERIPHERAL_INTERRUPT_VECTORS'' @ continuation]
       @ map (\<lambda>i. tab @ vector_lines [] tbl ! i @
                  (if i + 1 < length (vector_lines [] tbl) then continuation else []))
           [0..<length (vector_lines [] tbl)]
       @ [''#define PERIPHERAL_INTERRUPT_HANDLERS'' @ continuation]
       @ map (\<lambda>i. handler_lines [] tbl ! i @
                  (if i + 1 < length (handler_lines [] tbl) then continuation else []))
           [0..<length (handler_lines [] tbl)]"
  by (simp add: dump_macros_def dump_as_c_macro_eq print_to_def Let_def)

text \<open>Distinct names have distinct declarations.\<close>

lemma weak_alias_inject: "weak_alias a = weak_alias b \<longleftrightarrow> a = b"
  by (simp add: weak_alias_def)

lemma count_list_weak_alias:
  "count_list (map weak_alias xs) (weak_alias n) = count_list xs n"
  by (induction xs) (simp_all add: weak_alias_inject)

lemma count_list_filter: "P n \<Longrightarrow> count_list (filter P xs) n = count_list xs n"
  by (induction xs) auto

section \<open>The claims\<close>

text \<open>
  C1. The table builder processes every interrupt entry of every peripheral in order
  (it is one pass over the entries of all peripherals, concatenated, from 32 empty slots).
  At each entry whose number indexes slot \<open>k\<close>: when the slot is filled, the entry's name
  must equal the name in the slot (the table is unchanged then, and the step fails with
  an assertion error otherwise); when the slot is not filled, the entry's name is stored.
  The builder does just this at every entry it reaches: after a prefix of the entries that
  was recorded without error, it goes on with the rest when the next entry's slot is empty
  (then it stores the name) or holds the entry's name, and it fails as a whole with an
  assertion error when the slot holds another name, whatever entries follow.
  So when the builder returns, every slot holds the first name declared for it (the first
  non-empty one, in the order of the loops), and is empty when no name was declared for it.
\<close>

theorem builder_first_name_kept:
  "get_peripheral_interrupts ps
     = for_interrupts (replicate 32 []) (concat (map periph_interrupts ps))
   \<and> (py_index (length t) (intr_value x) = Some k \<longrightarrow>
        record_interrupt t x =
          (if t ! k \<noteq> [] then (if t ! k = intr_name x then Inr t else Inl AssertionError)
           else Inr (t[k := intr_name x])))
   \<and> (get_peripheral_interrupts ps = Inr tbl \<and> j < 32 \<longrightarrow>
        tbl ! j =
          (case find (\<lambda>e. py_index 32 (intr_value e) = Some j \<and> intr_name e \<noteq> [])
                  (concat (map periph_interrupts ps)) of
             None \<Rightarrow> []
           | Some e \<Rightarrow> intr_name e))
   \<and> (concat (map periph_interrupts ps) = pre @ y # post
        \<and> for_interrupts (replicate 32 []) pre = Inr u
        \<and> py_index 32 (intr_value y) = Some m \<longrightarrow>
        get_peripheral_interrupts ps =
          (if u ! m \<noteq> [] then
             (if u ! m = intr_name y then for_interrupts u post else Inl AssertionError)
           else for_interrupts (u[m := intr_name y]) post))
   \<and> (concat (map periph_interrupts ps) = pre @ y # post
        \<and> for_interrupts (replicate 32 []) pre = Inr u
        \<and> py_index 32 (intr_value y) = Some m
        \<and> u ! m \<noteq> [] \<and> u ! m \<noteq> intr_name y \<longrightarrow>
        get_peripheral_interrupts ps = Inl AssertionError)"
proof (intro conjI impI)
  show flat: "get_peripheral_interrupts ps
      = for_interrupts (replicate 32 []) (concat (map periph_interrupts ps))"
    by (simp add: get_peripheral_interrupts_def for_peripherals_concat)
  show "record_interrupt t x =
      (if t ! k \<noteq> [] then (if t ! k = intr_name x then Inr t else Inl AssertionError)
       else Inr (t[k := intr_name x]))"
    if "py_index (length t) (intr_value x) = Some k"
    using that by (rule record_interrupt_slot)
  show "tbl ! j =
      (case find (\<lambda>e. py_index 32 (intr_value e) = Some j \<and> intr_name e \<noteq> [])
              (concat (map periph_interrupts ps)) of
         None \<Rightarrow> []
       | Some e \<Rightarrow> intr_name e)"
    if h: "get_peripheral_interrupts ps = Inr tbl \<and> j < 32"
  proof -
    from h flat have r: "for_interrupts (replicate 32 []) (concat (map periph_interrupts ps)) = Inr tbl"
      by simp
    from h have j: "j < length (replicate 32 ([]::string))" by simp
    from for_interrupts_first [OF r j] h show ?thesis by simp
  qed
  have step: "get_peripheral_interrupts ps =
          (if u ! m \<noteq> [] then
             (if u ! m = intr_name y then for_interrupts u post else Inl AssertionError)
           else for_interrupts (u[m := intr_name y]) post)"
    if h: "concat (map periph_interrupts ps) = pre @ y # post
        \<and> for_interrupts (replicate 32 []) pre = Inr u
        \<and> py_index 32 (intr_value y) = Some m"
  proof -
    from h have p: "for_interrupts (replicate 32 []) pre = Inr u" by simp
    from for_interrupts_length [OF p] have len: "length u = 32" by simp
    with h have "py_index (length u) (intr_value y) = Some m" by simp
    from record_interrupt_slot [OF this]
    have r: "record_interrupt u y =
        (if u ! m \<noteq> [] then (if u ! m = intr_name y then Inr u else Inl AssertionError)
         else Inr (u[m := intr_name y]))" .
    from h flat have "get_peripheral_interrupts ps = for_interrupts (replicate 32 []) (pre @ y # post)"
      by simp
    also have "\<dots> = (case record_interrupt u y of Inl e \<Rightarrow> Inl e
                      | Inr u' \<Rightarrow> for_interrupts u' post)"
      using p by (rule for_interrupts_split)
    finally show ?thesis unfolding r by simp
  qed
  then show "get_peripheral_interrupts ps =
          (if u ! m \<noteq> [] then
             (if u ! m = intr_name y then for_interrupts u post else Inl AssertionError)
           else for_interrupts (u[m := intr_name y]) post)"
    if "concat (map periph_interrupts ps) = pre @ y # post
        \<and> for_interrupts (replicate 32 []) pre = Inr u
        \<and> py_index 32 (intr_value y) = Some m"
    using that .
  show "get_peripheral_interrupts ps = Inl AssertionError"
    if h: "concat (map periph_interrupts ps) = pre @ y # post
        \<and> for_interrupts (replicate 32 []) pre = Inr u
        \<and> py_index 32 (intr_value y) = Some m
        \<and> u ! m \<noteq> [] \<and> u ! m \<noteq> intr_name y"
  proof -
    from h have "concat (map periph_interrupts ps) = pre @ y # post
        \<and> for_interrupts (replicate 32 []) pre = Inr u
        \<and> py_index 32 (intr_value y) = Some m" by simp
    from step [OF this] h show ?thesis by simp
  qed
qed

theorem builder_first_name_kept_witness:
  "py_index (length [''POWER_CLOCK'', ''RADIO'']) (intr_value \<lparr>intr_name = ''UART0'', intr_value = 1\<rparr>) = Some 1
   \<and> record_interrupt [''POWER_CLOCK'', ''RADIO''] \<lparr>intr_name = ''UART0'', intr_value = 1\<rparr>
       = Inl AssertionError
   \<and> get_peripheral_interrupts
        [\<lparr>periph_interrupts = [\<lparr>intr_name = ''SPI0_TWI0'', intr_value = 3\<rparr>]\<rparr>,
         \<lparr>periph_interrupts = [\<lparr>intr_name = ''SPI0_TWI0'', intr_value = 3\<rparr>,
                                \<lparr>intr_name = ''RADIO'', intr_value = 1\<rparr>]\<rparr>]
       = Inr ([[], ''RADIO'', [], ''SPI0_TWI0''] @ replicate 28 [])
   \<and> (3::nat) < 32
   \<and> ([[], ''RADIO'', [], ''SPI0_TWI0''] @ replicate 28 []) ! 3 = ''SPI0_TWI0''
   \<and> concat (map periph_interrupts
        [\<lparr>periph_interrupts = [\<lparr>intr_name = ''RADIO'', intr_value = 1\<rparr>]\<rparr>,
         \<lparr>periph_interrupts = [\<lparr>intr_name = ''UART0'', intr_value = 1\<rparr>,
                                \<lparr>intr_name = ''RTC0'', intr_value = 11\<rparr>]\<rparr>])
       = [\<lparr>intr_name = ''RADIO'', intr_value = 1\<rparr>]
         @ \<lparr>intr_name = ''UART0'', intr_value = 1\<rparr>
         # [\<lparr>intr_name = ''RTC0'', intr_value = 11\<rparr>]
   \<and> for_interrupts (replicate 32 []) [\<lparr>intr_name = ''RADIO'', intr_value = 1\<rparr>]
       = Inr ((replicate 32 [])[1 := ''RADIO''])
   \<and> py_index 32 (intr_value \<lparr>intr_name = ''UART0'', intr_value = 1\<rparr>) = Some 1
   \<and> get_peripheral_interrupts
        [\<lparr>periph_interrupts = [\<lparr>intr_name = ''RADIO'', intr_value = 1\<rparr>]\<rparr>,
         \<lparr>periph_interrupts = [\<lparr>intr_name = ''UART0'', intr_value = 1\<rparr>,
                                \<lparr>intr_name = ''RTC0'', intr_value = 11\<rparr>]\<rparr>]
       = Inl AssertionError"
proof -
  have a: "py_index (length [''POWER_CLOCK'', ''RADIO''])
      (intr_value \<lparr>intr_name = ''UART0'', intr_value = 1\<rparr>) = Some 1"
    by (simp add: py_index_def)
  have b: "get_peripheral_interrupts
        [\<lparr>periph_interrupts = [\<lparr>intr_name = ''SPI0_TWI0'', intr_value = 3\<rparr>]\<rparr>,
         \<lparr>periph_interrupts = [\<lparr>intr_name = ''SPI0_TWI0'', intr_value = 3\<rparr>,
                                \<lparr>intr_name = ''RADIO'', intr_value = 1\<rparr>]\<rparr>]
       = Inr ([[], ''RADIO'', [], ''SPI0_TWI0''] @ replicate 28 [])"
    by code_simp
  have c: "(3::nat) < 32" by simp
  have d: "concat (map periph_interrupts
        [\<lparr>periph_interrupts = [\<lparr>intr_name = ''RADIO'', intr_value = 1\<rparr>]\<rparr>,
         \<lparr>periph_interrupts = [\<lparr>intr_name = ''UART0'', intr_value = 1\<rparr>,
                                \<lparr>intr_name = ''RTC0'', intr_value = 11\<rparr>]\<rparr>])
       = [\<lparr>intr_name = ''RADIO'', intr_value = 1\<rparr>]
         @ \<lparr>intr_name = ''UART0'', intr_value = 1\<rparr>
         # [\<lparr>intr_name = ''RTC0'', intr_value = 11\<rparr>]"
    by simp
  have e: "for_interrupts (replicate 32 []) [\<lparr>intr_name = ''RADIO'', intr_value = 1\<rparr>]
       = Inr ((replicate 32 [])[1 := ''RADIO''])"
    by (simp add: record_interrupt_def py_index_def)
  have f: "py_index 32 (intr_value \<lparr>intr_name = ''UART0'', intr_value = 1\<rparr>) = Some 1"
    by (simp add: py_index_def)
  have g: "(replicate 32 ([]::string))[1 := ''RADIO''] ! 1 \<noteq> []
      \<and> (replicate 32 ([]::string))[1 := ''RADIO''] ! 1
          \<noteq> intr_name \<lparr>intr_name = ''UART0'', intr_value = 1\<rparr>"
    by simp
  note ok = builder_first_name_kept
    [where ps = "[\<lparr>periph_interrupts = [\<lparr>intr_name = ''SPI0_TWI0'', intr_value = 3\<rparr>]\<rparr>,
         \<lparr>periph_interrupts = [\<lparr>intr_name = ''SPI0_TWI0'', intr_value = 3\<rparr>,
                                \<lparr>intr_name = ''RADIO'', intr_value = 1\<rparr>]\<rparr>]"
      and t = "[''POWER_CLOCK'', ''RADIO'']"
      and x = "\<lparr>intr_name = ''UART0'', intr_value = 1\<rparr>" and k = 1
      and tbl = "[[], ''RADIO'', [], ''SPI0_TWI0''] @ replicate 28 []" and j = 3]
  note bad = builder_first_name_kept
    [where ps = "[\<lparr>periph_interrupts = [\<lparr>intr_name = ''RADIO'', intr_value = 1\<rparr>]\<rparr>,
         \<lparr>periph_interrupts = [\<lparr>intr_name = ''UART0'', intr_value = 1\<rparr>,
                                \<lparr>intr_name = ''RTC0'', intr_value = 11\<rparr>]\<rparr>]"
      and pre = "[\<lparr>intr_name = ''RADIO'', intr_value = 1\<rparr>]"
      and y = "\<lparr>intr_name = ''UART0'', intr_value = 1\<rparr>"
      and post = "[\<lparr>intr_name = ''RTC0'', intr_value = 11\<rparr>]"
      and u = "(replicate 32 [])[1 := ''RADIO'']" and m = 1]
  from bad [THEN conjunct2, THEN conjunct2, THEN conjunct2, THEN conjunct2] d e f g
  have fatal: "get_peripheral_interrupts
        [\<lparr>periph_interrupts = [\<lparr>intr_name = ''RADIO'', intr_value = 1\<rparr>]\<rparr>,
         \<lparr>periph_interrupts = [\<lparr>intr_name = ''UART0'', intr_value = 1\<rparr>,
                                \<lparr>intr_name = ''RTC0'', intr_value = 11\<rparr>]\<rparr>]
       = Inl AssertionError"
    by blast
  from ok a b c have first: "record_interrupt [''POWER_CLOCK'', ''RADIO'']
        \<lparr>intr_name = ''UART0'', intr_value = 1\<rparr> = Inl AssertionError
      \<and> ([[], ''RADIO'', [], ''SPI0_TWI0''] @ replicate 28 []) ! 3 = ''SPI0_TWI0''"
    by (simp add: py_index_def)
  from a b c d e f fatal first show ?thesis by blast
qed

text \<open>
  C2. If two peripherals declare the same interrupt number with different
  non-empty handler names, the script fails and leaves the file system as it was: the
  builder raises before the output file is opened or written, so there is no output, not
  even a partial one. The failure is an assertion error, unless an entry whose number is
  outside \<open>-32 .. 31\<close> is reached first, the entries before it having been recorded
  without error: then, and only then, it is an IndexError. In particular it is an
  assertion error when the entries before the second of the two conflicting ones all have
  numbers in \<open>-32 .. 31\<close>, whatever follows.
\<close>

theorem conflicting_names_fail_before_output:
  assumes "p \<in> set ps" and "q \<in> set ps"
    and "a \<in> set (periph_interrupts p)" and "b \<in> set (periph_interrupts q)"
    and "intr_value a = intr_value b"
    and "intr_name a \<noteq> []" and "intr_name b \<noteq> []" and "intr_name a \<noteq> intr_name b"
  shows "(\<exists>e. main ps fs = (Inl e, fs))
    \<and> ((\<forall>x\<in>set (concat (map periph_interrupts ps)). - 32 \<le> intr_value x \<and> intr_value x < 32)
         \<longrightarrow> main ps fs = (Inl AssertionError, fs))
    \<and> main ps fs =
        (Inl (if \<exists>pre x post u.
                   concat (map periph_interrupts ps) = pre @ x # post
                 \<and> for_interrupts (replicate 32 []) pre = Inr u
                 \<and> (intr_value x < - 32 \<or> 32 \<le> intr_value x)
              then IndexError else AssertionError), fs)
    \<and> (\<forall>pre post.
          (concat (map periph_interrupts ps) = pre @ b # post \<and> a \<in> set pre
           \<or> concat (map periph_interrupts ps) = pre @ a # post \<and> b \<in> set pre)
        \<and> (\<forall>x\<in>set pre. - 32 \<le> intr_value x \<and> intr_value x < 32)
        \<longrightarrow> main ps fs = (Inl AssertionError, fs))"
proof -
  let ?es = "concat (map periph_interrupts ps)"
  let ?t0 = "replicate 32 ([]::string)"
  have g: "get_peripheral_interrupts ps = for_interrupts ?t0 ?es"
    by (simp add: get_peripheral_interrupts_def for_peripherals_concat)
  from assms have a: "a \<in> set ?es" and b: "b \<in> set ?es" by auto
  have fails: "for_interrupts ?t0 ?es \<noteq> Inr tbl" for tbl
  proof
    assume r: "for_interrupts ?t0 ?es = Inr tbl"
    from for_interrupts_recorded [OF r a assms(6)]
    obtain j where j: "py_index (length ?t0) (intr_value a) = Some j" "tbl ! j = intr_name a"
      by auto
    from for_interrupts_recorded [OF r b assms(7)]
    obtain k where k: "py_index (length ?t0) (intr_value b) = Some k" "tbl ! k = intr_name b"
      by auto
    from j k assms(5) have "j = k" by simp
    with j k assms(8) show False by simp
  qed
  then obtain e where e: "for_interrupts ?t0 ?es = Inl e"
    by (cases "for_interrupts ?t0 ?es") auto
  with g have m: "main ps fs = (Inl e, fs)" by (simp add: main_def)
  have c1: "\<exists>e. main ps fs = (Inl e, fs)" using m by blast
  have c2: "main ps fs = (Inl AssertionError, fs)"
    if rng: "\<forall>x\<in>set ?es. - 32 \<le> intr_value x \<and> intr_value x < 32"
  proof -
    have "e \<noteq> IndexError"
    proof
      assume "e = IndexError"
      with e for_interrupts_IndexError [of ?t0 ?es]
      obtain x where x: "x \<in> set ?es" and n: "py_index (length ?t0) (intr_value x) = None"
        by auto
      from rng x have "- 32 \<le> intr_value x \<and> intr_value x < 32" by (rule bspec)
      with n show False by (simp add: py_index_None_iff)
    qed
    with py_error_cases [of e] m show ?thesis by simp
  qed
  have iff: "(e = IndexError) =
      (\<exists>pre x post u. ?es = pre @ x # post \<and> for_interrupts ?t0 pre = Inr u
         \<and> (intr_value x < - 32 \<or> 32 \<le> intr_value x))"
    using e for_interrupts_IndexError_iff [of ?t0 ?es]
    by (simp add: py_index_None_iff)
  have c3: "main ps fs =
        (Inl (if \<exists>pre x post u. ?es = pre @ x # post
                 \<and> for_interrupts ?t0 pre = Inr u
                 \<and> (intr_value x < - 32 \<or> 32 \<le> intr_value x)
              then IndexError else AssertionError), fs)"
    unfolding iff [symmetric] using m py_error_cases [of e] by auto
  have c4: "main ps fs = (Inl AssertionError, fs)"
    if h: "(?es = pre @ b # post \<and> a \<in> set pre \<or> ?es = pre @ a # post \<and> b \<in> set pre)
        \<and> (\<forall>x\<in>set pre. - 32 \<le> intr_value x \<and> intr_value x < 32)"
    for pre post
  proof -
    have rng: "\<forall>x\<in>set pre. py_index (length ?t0) (intr_value x) \<noteq> None"
    proof
      fix x assume "x \<in> set pre"
      with h have "- 32 \<le> intr_value x \<and> intr_value x < 32" by blast
      then show "py_index (length ?t0) (intr_value x) \<noteq> None"
        by (simp add: py_index_None_iff)
    qed
    from h have "?es = pre @ b # post \<and> a \<in> set pre \<or> ?es = pre @ a # post \<and> b \<in> set pre"
      by blast
    then have "for_interrupts ?t0 ?es = Inl AssertionError"
    proof
      assume "?es = pre @ b # post \<and> a \<in> set pre"
      then show ?thesis
        using for_interrupts_conflict [of ?es pre b post a ?t0] assms(5,6,8) rng by blast
    next
      assume "?es = pre @ a # post \<and> b \<in> set pre"
      then show ?thesis
        using for_interrupts_conflict [of ?es pre a post b ?t0] assms(5,7,8) rng
        by (metis (no_types))
    qed
    with g show ?thesis by (simp add: main_def)
  qed
  from c1 c2 c3 c4 show ?thesis by blast
qed

theorem conflicting_names_fail_before_output_witness:
  "\<lparr>periph_interrupts = [\<lparr>intr_name = ''RADIO'', intr_value = 1\<rparr>]\<rparr>
     \<in> set [\<lparr>periph_interrupts = [\<lparr>intr_name = ''RADIO'', intr_value = 1\<rparr>]\<rparr>,
          \<lparr>periph_interrupts = [\<lparr>intr_name = ''UART0'', intr_value = 1\<rparr>]\<rparr>,
          \<lparr>periph_interrupts = [\<lparr>intr_name = ''RTC0'', intr_value = 32\<rparr>]\<rparr>]
   \<and> \<lparr>periph_interrupts = [\<lparr>intr_name = ''UART0'', intr_value = 1\<rparr>]\<rparr>
     \<in> set [\<lparr>periph_interrupts = [\<lparr>intr_name = ''RADIO'', intr_value = 1\<rparr>]\<rparr>,
          \<lparr>periph_interrupts = [\<lparr>intr_name = ''UART0'', intr_value = 1\<rparr>]\<rparr>,
          \<lparr>periph_interrupts = [\<lparr>intr_name = ''RTC0'', intr_value = 32\<rparr>]\<rparr>]
   \<and> intr_value \<lparr>intr_name = ''RADIO'', intr_value = 1\<rparr>
       = intr_value \<lparr>intr_name = ''UART0'', intr_value = 1\<rparr>
   \<and> intr_name \<lparr>intr_name = ''RADIO'', intr_value = 1\<rparr>
       \<noteq> intr_name \<lparr>intr_name = ''UART0'', intr_value = 1\<rparr>
   \<and> concat (map periph_interrupts
         [\<lparr>periph_interrupts = [\<lparr>intr_name = ''RADIO'', intr_value = 1\<rparr>]\<rparr>,
          \<lparr>periph_interrupts = [\<lparr>intr_name = ''UART0'', intr_value = 1\<rparr>]\<rparr>,
          \<lparr>periph_interrupts = [\<lparr>intr_name = ''RTC0'', intr_value = 32\<rparr>]\<rparr>])
       = [\<lparr>intr_name = ''RADIO'', intr_value = 1\<rparr>]
         @ \<lparr>intr_name = ''UART0'', intr_value = 1\<rparr>
         # [\<lparr>intr_name = ''RTC0'', intr_value = 32\<rparr>]
   \<and> main [\<lparr>periph_interrupts = [\<lparr>intr_name = ''RADIO'', intr_value = 1\<rparr>]\<rparr>,
          \<lparr>periph_interrupts = [\<lparr>intr_name = ''UART0'', intr_value = 1\<rparr>]\<rparr>,
          \<lparr>periph_interrupts = [\<lparr>intr_name = ''RTC0'', intr_value = 32\<rparr>]\<rparr>]
        Map.empty
       = (Inl AssertionError, Map.empty)"
proof -
  have d: "concat (map periph_interrupts
         [\<lparr>periph_interrupts = [\<lparr>intr_name = ''RADIO'', intr_value = 1\<rparr>]\<rparr>,
          \<lparr>periph_interrupts = [\<lparr>intr_name = ''UART0'', intr_value = 1\<rparr>]\<rparr>,
          \<lparr>periph_interrupts = [\<lparr>intr_name = ''RTC0'', intr_value = 32\<rparr>]\<rparr>])
       = [\<lparr>intr_name = ''RADIO'', intr_value = 1\<rparr>]
         @ \<lparr>intr_name = ''UART0'', intr_value = 1\<rparr>
         # [\<lparr>intr_name = ''RTC0'', intr_value = 32\<rparr>]"
    by simp
  have r: "\<forall>x\<in>set [\<lparr>intr_name = ''RADIO'', intr_value = 1\<rparr>].
      - 32 \<le> intr_value x \<and> intr_value x < 32"
    by simp
  have hyps: "\<lparr>periph_interrupts = [\<lparr>intr_name = ''RADIO'', intr_value = 1\<rparr>]\<rparr>
     \<in> set [\<lparr>periph_interrupts = [\<lparr>intr_name = ''RADIO'', intr_value = 1\<rparr>]\<rparr>,
          \<lparr>periph_interrupts = [\<lparr>intr_name = ''UART0'', intr_value = 1\<rparr>]\<rparr>,
          \<lparr>periph_interrupts = [\<lparr>intr_name = ''RTC0'', intr_value = 32\<rparr>]\<rparr>]
   \<and> \<lparr>periph_interrupts = [\<lparr>intr_name = ''UART0'', intr_value = 1\<rparr>]\<rparr>
     \<in> set [\<lparr>periph_interrupts = [\<lparr>intr_name = ''RADIO'', intr_value = 1\<rparr>]\<rparr>,
          \<lparr>periph_interrupts = [\<lparr>intr_name = ''UART0'', intr_value = 1\<rparr>]\<rparr>,
          \<lparr>periph_interrupts = [\<lparr>intr_name = ''RTC0'', intr_value = 32\<rparr>]\<rparr>]
   \<and> intr_value \<lparr>intr_name = ''RADIO'', intr_value = 1\<rparr>
       = intr_value \<lparr>intr_name = ''UART0'', intr_value = 1\<rparr>
   \<and> intr_name \<lparr>intr_name = ''RADIO'', intr_value = 1\<rparr>
       \<noteq> intr_name \<lparr>intr_name = ''UART0'', intr_value = 1\<rparr>"
    by simp
  have h1: "\<lparr>periph_interrupts = [\<lparr>intr_name = ''RADIO'', intr_value = 1\<rparr>]\<rparr>
     \<in> set [\<lparr>periph_interrupts = [\<lparr>intr_name = ''RADIO'', intr_value = 1\<rparr>]\<rparr>,
          \<lparr>periph_interrupts = [\<lparr>intr_name = ''UART0'', intr_value = 1\<rparr>]\<rparr>,
          \<lparr>periph_interrupts = [\<lparr>intr_name = ''RTC0'', intr_value = 32\<rparr>]\<rparr>]"
    by simp
  have h2: "\<lparr>periph_interrupts = [\<lparr>intr_name = ''UART0'', intr_value = 1\<rparr>]\<rparr>
     \<in> set [\<lparr>periph_interrupts = [\<lparr>intr_name = ''RADIO'', intr_value = 1\<rparr>]\<rparr>,
          \<lparr>periph_interrupts = [\<lparr>intr_name = ''UART0'', intr_value = 1\<rparr>]\<rparr>,
          \<lparr>periph_interrupts = [\<lparr>intr_name = ''RTC0'', intr_value = 32\<rparr>]\<rparr>]"
    by simp
  have h3: "\<lparr>intr_name = ''RADIO'', intr_value = 1\<rparr>
      \<in> set (periph_interrupts \<lparr>periph_interrupts = [\<lparr>intr_name = ''RADIO'', intr_value = 1\<rparr>]\<rparr>)"
    by simp
  have h4: "\<lparr>intr_name = ''UART0'', intr_value = 1\<rparr>
      \<in> set (periph_interrupts \<lparr>periph_interrupts = [\<lparr>intr_name = ''UART0'', intr_value = 1\<rparr>]\<rparr>)"
    by simp
  have h5: "intr_value \<lparr>intr_name = ''RADIO'', intr_value = 1\<rparr>
       = intr_value \<lparr>intr_name = ''UART0'', intr_value = 1\<rparr>"
    by simp
  have h6: "intr_name \<lparr>intr_name = ''RADIO'', intr_value = 1\<rparr> \<noteq> []" by simp
  have h7: "intr_name \<lparr>intr_name = ''UART0'', intr_value = 1\<rparr> \<noteq> []" by simp
  have h8: "intr_name \<lparr>intr_name = ''RADIO'', intr_value = 1\<rparr>
       \<noteq> intr_name \<lparr>intr_name = ''UART0'', intr_value = 1\<rparr>"
    by simp
  have m: "\<lparr>intr_name = ''RADIO'', intr_value = 1\<rparr> \<in> set [\<lparr>intr_name = ''RADIO'', intr_value = 1\<rparr>]"
    by simp
  note th = conflicting_names_fail_before_output [OF h1 h2 h3 h4 h5 h6 h7 h8, of Map.empty]
  from th [THEN conjunct2, THEN conjunct2, THEN conjunct2, THEN spec, THEN spec,
      of "[\<lparr>intr_name = ''RADIO'', intr_value = 1\<rparr>]" "[\<lparr>intr_name = ''RTC0'', intr_value = 32\<rparr>]"] d r m
  have "main [\<lparr>periph_interrupts = [\<lparr>intr_name = ''RADIO'', intr_value = 1\<rparr>]\<rparr>,
          \<lparr>periph_interrupts = [\<lparr>intr_name = ''UART0'', intr_value = 1\<rparr>]\<rparr>,
          \<lparr>periph_interrupts = [\<lparr>intr_name = ''RTC0'', intr_value = 32\<rparr>]\<rparr>]
        Map.empty
       = (Inl AssertionError, Map.empty)"
    by blast
  with hyps d show ?thesis by blast
qed

text \<open>
  The failure is not an assertion error in every case: an entry whose number is outside
  the table, met before the conflict, raises IndexError.
\<close>

theorem conflicting_names_index_error_counterexample:
  "get_peripheral_interrupts
     [\<lparr>periph_interrupts = [\<lparr>intr_name = ''GPIOTE'', intr_value = 40\<rparr>]\<rparr>,
      \<lparr>periph_interrupts = [\<lparr>intr_name = ''RADIO'', intr_value = 1\<rparr>]\<rparr>,
      \<lparr>periph_interrupts = [\<lparr>intr_name = ''UART0'', intr_value = 1\<rparr>]\<rparr>]
   = Inl IndexError"
  by (simp add: get_peripheral_interrupts_def record_interrupt_def py_index_def)

text \<open>
  C3. For every valid device description (every interrupt number in \<open>0 .. 31\<close>, and
  one name per number) the builder returns a table of 32 slots, and the body of the
  PERIPHERAL_INTERRUPT_VECTORS macro that is printed has exactly 32 lines, line \<open>i\<close>
  for slot \<open>i\<close>. Every entry ends in a comma: it is an expression and a comma (after
  which the reserved entry carries its comment), before the continuation backslash that
  all lines but the last have.
\<close>

theorem vector_macro_has_32_entries:
  assumes "\<forall>x\<in>set (concat (map periph_interrupts ps)). 0 \<le> intr_value x \<and> intr_value x < 32"
    and "\<forall>x\<in>set (concat (map periph_interrupts ps)).
         \<forall>y\<in>set (concat (map periph_interrupts ps)).
           intr_value x = intr_value y \<longrightarrow> intr_name x = intr_name y"
  shows "\<exists>tbl body rest.
      get_peripheral_interrupts ps = Inr tbl
    \<and> dump_macros tbl out =
        out @ [''/* Automatically generated by nRF51_codegen.py */'',
               ''#define PERIPHERAL_INTERRUPT_VECTORS'' @ continuation]
            @ body
            @ (''#define PERIPHERAL_INTERRUPT_HANDLERS'' @ continuation) # rest
    \<and> length tbl = 32 \<and> length body = 32
    \<and> (\<forall>i<32. body ! i =
          tab @ (if tbl ! i = [] then ''0'' else tbl ! i @ ''_Handler'') @ '',''
              @ (if tbl ! i = [] then '' /* Reserved */'' else [])
              @ (if i < 31 then continuation else []))"
proof -
  let ?es = "concat (map periph_interrupts ps)"
  let ?t0 = "replicate 32 ([]::string)"
  have "\<exists>t'. for_interrupts ?t0 ?es = Inr t'"
  proof (rule for_interrupts_consistent; intro ballI allI impI)
    fix x assume "x \<in> set ?es"
    with assms(1) have "0 \<le> intr_value x \<and> intr_value x < 32" by (rule bspec)
    then show "py_index (length ?t0) (intr_value x) \<noteq> None"
      by (simp add: py_index_None_iff)
  next
    fix x j assume "py_index (length ?t0) (intr_value x) = Some j" "?t0 ! j \<noteq> []"
    then show "?t0 ! j = intr_name x" by (auto dest: py_index_less)
  next
    fix x y assume x: "x \<in> set ?es" and y: "y \<in> set ?es"
      and e: "py_index (length ?t0) (intr_value x) = py_index (length ?t0) (intr_value y)"
    from assms(1) x have rx: "0 \<le> intr_value x \<and> intr_value x < 32" by (rule bspec)
    from assms(1) y have ry: "0 \<le> intr_value y \<and> intr_value y < 32" by (rule bspec)
    from rx ry e have "nat (intr_value x) = nat (intr_value y)"
      by (simp add: py_index_def)
    with rx ry have "intr_value x = intr_value y" by linarith
    with assms(2) [rule_format, OF x y] show "intr_name x = intr_name y" .
  qed
  then obtain tbl where tbl: "get_peripheral_interrupts ps = Inr tbl"
    by (auto simp: get_peripheral_interrupts_def for_peripherals_concat)
  then have len: "length tbl = 32" by (rule get_peripheral_interrupts_length)
  let ?body = "map (\<lambda>i. tab @ vector_lines [] tbl ! i @
                  (if i + 1 < length (vector_lines [] tbl) then continuation else []))
           [0..<length (vector_lines [] tbl)]"
  have vl: "length (vector_lines [] tbl) = 32" by (simp add: vector_lines_eq len)
  let ?rest = "map (\<lambda>i. handler_lines [] tbl ! i @
                  (if i + 1 < length (handler_lines [] tbl) then continuation else []))
           [0..<length (handler_lines [] tbl)]"
  have nth: "\<forall>i<32. ?body ! i =
          tab @ (if tbl ! i = [] then ''0'' else tbl ! i @ ''_Handler'') @ '',''
              @ (if tbl ! i = [] then '' /* Reserved */'' else [])
              @ (if i < 31 then continuation else [])"
  proof (intro allI impI)
    fix i :: nat assume i: "i < 32"
    then have "?body ! i = tab @ vector_lines [] tbl ! i @ (if i + 1 < 32 then continuation else [])"
      by (simp add: vl del: upt_Suc)
    moreover have "(i + 1 < 32) = (i < 31)" by auto
    ultimately show "?body ! i =
          tab @ (if tbl ! i = [] then ''0'' else tbl ! i @ ''_Handler'') @ '',''
              @ (if tbl ! i = [] then '' /* Reserved */'' else [])
              @ (if i < 31 then continuation else [])"
      using i len by (simp add: vector_lines_eq)
  qed
  have bl: "length ?body = 32" by (simp add: vl)
  have dm: "dump_macros tbl out =
        out @ [''/* Automatically generated by nRF51_codegen.py */'',
               ''#define PERIPHERAL_INTERRUPT_VECTORS'' @ continuation]
            @ ?body
            @ (''#define PERIPHERAL_INTERRUPT_HANDLERS'' @ continuation) # ?rest"
    by (subst dump_macros_eq) simp
  from tbl dm len bl nth show ?thesis by blast
qed

theorem vector_macro_has_32_entries_witness:
  "\<exists>tbl body rest.
      get_peripheral_interrupts
      [\<lparr>periph_interrupts = [\<lparr>intr_name = ''POWER_CLOCK'', intr_value = 0\<rparr>]\<rparr>,
       \<lparr>periph_interrupts = [\<lparr>intr_name = ''RADIO'', intr_value = 1\<rparr>]\<rparr>] = Inr tbl
    \<and> dump_macros tbl [] =
        [] @ [''/* Automatically generated by nRF51_codegen.py */'',
               ''#define PERIPHERAL_INTERRUPT_VECTORS'' @ continuation]
            @ body
            @ (''#define PERIPHERAL_INTERRUPT_HANDLERS'' @ continuation) # rest
    \<and> length tbl = 32 \<and> length body = 32
    \<and> (\<forall>i<32. body ! i =
          tab @ (if tbl ! i = [] then ''0'' else tbl ! i @ ''_Handler'') @ '',''
              @ (if tbl ! i = [] then '' /* Reserved */'' else [])
              @ (if i < 31 then continuation else []))"
proof -
  have h1: "\<forall>x\<in>set (concat (map periph_interrupts
      [\<lparr>periph_interrupts = [\<lparr>intr_name = ''POWER_CLOCK'', intr_value = 0\<rparr>]\<rparr>,
       \<lparr>periph_interrupts = [\<lparr>intr_name = ''RADIO'', intr_value = 1\<rparr>]\<rparr>])).
      0 \<le> intr_value x \<and> intr_value x < 32"
    by simp
  have h2: "\<forall>x\<in>set (concat (map periph_interrupts
      [\<lparr>periph_interrupts = [\<lparr>intr_name = ''POWER_CLOCK'', intr_value = 0\<rparr>]\<rparr>,
       \<lparr>periph_interrupts = [\<lparr>intr_name = ''RADIO'', intr_value = 1\<rparr>]\<rparr>])).
      \<forall>y\<in>set (concat (map periph_interrupts
      [\<lparr>periph_interrupts = [\<lparr>intr_name = ''POWER_CLOCK'', intr_value = 0\<rparr>]\<rparr>,
       \<lparr>periph_interrupts = [\<lparr>intr_name = ''RADIO'', intr_value = 1\<rparr>]\<rparr>])).
        intr_value x = intr_value y \<longrightarrow> intr_name x = intr_name y"
    by simp
  show ?thesis by (rule vector_macro_has_32_entries [OF h1 h2, of "[]"])
qed

text \<open>
  C4. In the body of the vector-table macro, the line of a slot with no declared handler
  name is the reserved marker \<^verbatim>\<open>0, /* Reserved */\<close>, and the line of a slot with the
  declared name \<open>N\<close> is \<^verbatim>\<open>N_Handler,\<close>: these are the lines the emitter collects,
  and each is printed after one tab of indentation and followed by the continuation
  backslash except on the last line.
\<close>

theorem vector_entry_text:
  "\<exists>body rest.
      dump_macros tbl out =
        out @ [''/* Automatically generated by nRF51_codegen.py */'',
               ''#define PERIPHERAL_INTERRUPT_VECTORS'' @ continuation]
            @ body
            @ (''#define PERIPHERAL_INTERRUPT_HANDLERS'' @ continuation) # rest
    \<and> length (vector_lines [] tbl) = length tbl \<and> length body = length tbl
    \<and> (\<forall>i<length tbl.
          vector_lines [] tbl ! i
            = (if tbl ! i = [] then ''0, /* Reserved */'' else tbl ! i @ ''_Handler,'')
        \<and> body ! i = tab @ vector_lines [] tbl ! i
                        @ (if i + 1 < length tbl then continuation else []))"
proof -
  let ?body = "map (\<lambda>i. tab @ vector_lines [] tbl ! i @
                  (if i + 1 < length (vector_lines [] tbl) then continuation else []))
           [0..<length (vector_lines [] tbl)]"
  let ?rest = "map (\<lambda>i. handler_lines [] tbl ! i @
                  (if i + 1 < length (handler_lines [] tbl) then continuation else []))
           [0..<length (handler_lines [] tbl)]"
  have vl: "length (vector_lines [] tbl) = length tbl" by (simp add: vector_lines_eq)
  have bl: "length ?body = length tbl" by (simp add: vl)
  have dm: "dump_macros tbl out =
        out @ [''/* Automatically generated by nRF51_codegen.py */'',
               ''#define PERIPHERAL_INTERRUPT_VECTORS'' @ continuation]
            @ ?body
            @ (''#define PERIPHERAL_INTERRUPT_HANDLERS'' @ continuation) # ?rest"
    by (subst dump_macros_eq) simp
  have nth: "\<forall>i<length tbl.
          vector_lines [] tbl ! i
            = (if tbl ! i = [] then ''0, /* Reserved */'' else tbl ! i @ ''_Handler,'')
        \<and> ?body ! i = tab @ vector_lines [] tbl ! i
                        @ (if i + 1 < length tbl then continuation else [])"
    by (simp add: vl vector_lines_eq del: upt_Suc)
  from dm vl bl nth show ?thesis by blast
qed

theorem vector_entry_text_witness:
  "\<exists>body rest.
      dump_macros [''POWER_CLOCK'', []] [] =
        [] @ [''/* Automatically generated by nRF51_codegen.py */'',
               ''#define PERIPHERAL_INTERRUPT_VECTORS'' @ continuation]
            @ body
            @ (''#define PERIPHERAL_INTERRUPT_HANDLERS'' @ continuation) # rest
    \<and> length (vector_lines [] [''POWER_CLOCK'', []]) = length [''POWER_CLOCK'', []::string]
    \<and> length body = length [''POWER_CLOCK'', []::string]
    \<and> (\<forall>i<length [''POWER_CLOCK'', []::string].
          vector_lines [] [''POWER_CLOCK'', []] ! i
            = (if [''POWER_CLOCK'', []] ! i = [] then ''0, /* Reserved */''
               else [''POWER_CLOCK'', []] ! i @ ''_Handler,'')
        \<and> body ! i = tab @ vector_lines [] [''POWER_CLOCK'', []] ! i
                        @ (if i + 1 < length [''POWER_CLOCK'', []::string] then continuation else []))"
  by (rule vector_entry_text [of "[''POWER_CLOCK'', []]" "[]"])

text \<open>
  C5. The lines of the PERIPHERAL_INTERRUPT_HANDLERS macro are the weak-alias
  declarations of the non-empty slots, in slot order: one line for each slot that holds a
  name and none for an empty slot. So there are as many lines as non-empty slots, and the
  declaration of a name occurs as often as the name occurs in the table (once for a name
  that holds one slot). These lines, and no others, are printed as the body of the macro.
\<close>

theorem one_weak_alias_per_named_slot:
  "handler_lines [] tbl = map weak_alias (filter (\<lambda>name. name \<noteq> []) tbl)
   \<and> length (handler_lines [] tbl) = length (filter (\<lambda>name. name \<noteq> []) tbl)
   \<and> (name \<noteq> [] \<longrightarrow>
        count_list (handler_lines [] tbl) (weak_alias name) = count_list tbl name)
   \<and> count_list (handler_lines [] tbl) (weak_alias []) = 0
   \<and> (\<exists>pre body.
        dump_macros tbl out
          = pre @ (''#define PERIPHERAL_INTERRUPT_HANDLERS'' @ continuation) # body
      \<and> length pre = length out + 2 + length tbl
      \<and> length body = length (filter (\<lambda>name. name \<noteq> []) tbl)
      \<and> (\<forall>k<length body.
            body ! k = handler_lines [] tbl ! k
                         @ (if k + 1 < length body then continuation else [])))"
proof (intro conjI impI)
  show eq: "handler_lines [] tbl = map weak_alias (filter (\<lambda>name. name \<noteq> []) tbl)"
    by (simp add: handler_lines_eq)
  show len: "length (handler_lines [] tbl) = length (filter (\<lambda>name. name \<noteq> []) tbl)"
    by (simp add: eq)
  show "count_list (handler_lines [] tbl) (weak_alias name) = count_list tbl name"
    if "name \<noteq> []"
    using that by (simp add: eq count_list_weak_alias count_list_filter)
  have "count_list (filter (\<lambda>name. name \<noteq> []) tbl) [] = 0"
    by (simp add: count_list_0_iff)
  then show "count_list (handler_lines [] tbl) (weak_alias []) = 0"
    by (simp add: eq count_list_weak_alias)
  let ?pre = "out @ [''/* Automatically generated by nRF51_codegen.py */'',
               ''#define PERIPHERAL_INTERRUPT_VECTORS'' @ continuation]
       @ map (\<lambda>i. tab @ vector_lines [] tbl ! i @
                  (if i + 1 < length (vector_lines [] tbl) then continuation else []))
           [0..<length (vector_lines [] tbl)]"
  let ?body = "map (\<lambda>i. handler_lines [] tbl ! i @
                  (if i + 1 < length (handler_lines [] tbl) then continuation else []))
           [0..<length (handler_lines [] tbl)]"
  have dm: "dump_macros tbl out
      = ?pre @ (''#define PERIPHERAL_INTERRUPT_HANDLERS'' @ continuation) # ?body"
    by (subst dump_macros_eq) simp
  have pl: "length ?pre = length out + 2 + length tbl"
    by (simp add: vector_lines_eq)
  have bl: "length ?body = length (filter (\<lambda>name. name \<noteq> []) tbl)"
    by (simp add: len)
  have nth: "\<forall>k<length ?body.
            ?body ! k = handler_lines [] tbl ! k
                         @ (if k + 1 < length ?body then continuation else [])"
    by (simp del: upt_Suc)
  from dm pl bl nth show "\<exists>pre body.
        dump_macros tbl out
          = pre @ (''#define PERIPHERAL_INTERRUPT_HANDLERS'' @ continuation) # body
      \<and> length pre = length out + 2 + length tbl
      \<and> length body = length (filter (\<lambda>name. name \<noteq> []) tbl)
      \<and> (\<forall>k<length body.
            body ! k = handler_lines [] tbl ! k
                         @ (if k + 1 < length body then continuation else []))"
    by blast
qed

theorem one_weak_alias_per_named_slot_witness:
  "''RADIO'' \<noteq> []
   \<and> handler_lines [] [''RADIO'', [], ''UART0'']
       = map weak_alias (filter (\<lambda>name. name \<noteq> []) [''RADIO'', [], ''UART0''])
   \<and> length (handler_lines [] [''RADIO'', [], ''UART0'']) = 2
   \<and> count_list (handler_lines [] [''RADIO'', [], ''UART0'']) (weak_alias ''RADIO'') = 1"
  using one_weak_alias_per_named_slot [of "[''RADIO'', [], ''UART0'']" "''RADIO''" "[]"]
  by simp

text \<open>
  C6. The weak-alias declaration collected for a non-empty slot with the name \<open>N\<close> is the
  text \<^verbatim>\<open>void N_Handler(void) __attribute__ ((weak, alias("Dummy_Handler")));\<close>, with
  one space between \<^verbatim>\<open>__attribute__\<close> and the opening parentheses. It is printed
  as it is on the last line of the macro and followed by the continuation backslash on the
  lines before.
\<close>

theorem weak_alias_line_text:
  "handler_lines [] tbl =
     map (\<lambda>name. ''void '' @ name @ ''_Handler(void) __attribute__ ((weak, alias(''
                   @ [CHR 0x22] @ ''Dummy_Handler'' @ [CHR 0x22] @ '')));'')
       (filter (\<lambda>name. name \<noteq> []) tbl)
   \<and> dump_as_c_macro ''PERIPHERAL_INTERRUPT_HANDLERS'' (handler_lines [] tbl) out 0 =
       out @ (''#define PERIPHERAL_INTERRUPT_HANDLERS'' @ continuation) #
         map (\<lambda>k. handler_lines [] tbl ! k @
                (if k + 1 < length (handler_lines [] tbl) then continuation else []))
           [0..<length (handler_lines [] tbl)]"
proof
  have "weak_alias = (\<lambda>name. ''void '' @ name @ ''_Handler(void) __attribute__ ((weak, alias(''
                   @ [CHR 0x22] @ ''Dummy_Handler'' @ [CHR 0x22] @ '')));'')"
    by (rule ext) (simp add: weak_alias_def)
  then show "handler_lines [] tbl =
     map (\<lambda>name. ''void '' @ name @ ''_Handler(void) __attribute__ ((weak, alias(''
                   @ [CHR 0x22] @ ''Dummy_Handler'' @ [CHR 0x22] @ '')));'')
       (filter (\<lambda>name. name \<noteq> []) tbl)"
    by (simp only: handler_lines_eq append_Nil)
  show "dump_as_c_macro ''PERIPHERAL_INTERRUPT_HANDLERS'' (handler_lines [] tbl) out 0 =
       out @ (''#define PERIPHERAL_INTERRUPT_HANDLERS'' @ continuation) #
         map (\<lambda>k. handler_lines [] tbl ! k @
                (if k + 1 < length (handler_lines [] tbl) then continuation else []))
           [0..<length (handler_lines [] tbl)]"
    by (subst dump_as_c_macro_eq) simp
qed

text \<open>
  The text with no space between \<^verbatim>\<open>__attribute__\<close> and the parentheses is not
  what the emitter collects.
\<close>

theorem weak_alias_no_space_counterexample:
  "handler_lines [] [''RADIO''] \<noteq>
     [''void RADIO_Handler(void) __attribute__((weak, alias(''
        @ [CHR 0x22] @ ''Dummy_Handler'' @ [CHR 0x22] @ '')));'']"
  by (simp add: weak_alias_def)

text \<open>
  C7. For the description with the interrupts 0 POWER_CLOCK and 1 RADIO and nothing else,
  the table is these two names and 30 empty slots; the entries of the vector table are
  \<^verbatim>\<open>POWER_CLOCK_Handler,\<close>, \<^verbatim>\<open>RADIO_Handler,\<close> and 30 times the reserved marker;
  and exactly two weak-alias declarations are collected, for POWER_CLOCK_Handler and
  RADIO_Handler. The last equation is the whole output.
\<close>

theorem scenario_power_clock_radio:
  "get_peripheral_interrupts
     [\<lparr>periph_interrupts = [\<lparr>intr_name = ''POWER_CLOCK'', intr_value = 0\<rparr>]\<rparr>,
      \<lparr>periph_interrupts = [\<lparr>intr_name = ''RADIO'', intr_value = 1\<rparr>]\<rparr>]
     = Inr ([''POWER_CLOCK'', ''RADIO''] @ replicate 30 [])
   \<and> vector_lines [] ([''POWER_CLOCK'', ''RADIO''] @ replicate 30 [])
     = [''POWER_CLOCK_Handler,'', ''RADIO_Handler,''] @ replicate 30 ''0, /* Reserved */''
   \<and> handler_lines [] ([''POWER_CLOCK'', ''RADIO''] @ replicate 30 [])
     = [''void POWER_CLOCK_Handler(void) __attribute__ ((weak, alias(''
          @ [CHR 0x22] @ ''Dummy_Handler'' @ [CHR 0x22] @ '')));'',
        ''void RADIO_Handler(void) __attribute__ ((weak, alias(''
          @ [CHR 0x22] @ ''Dummy_Handler'' @ [CHR 0x22] @ '')));'']
   \<and> dump_macros ([''POWER_CLOCK'', ''RADIO''] @ replicate 30 []) []
     = [''/* Automatically generated by nRF51_codegen.py */'',
        ''#define PERIPHERAL_INTERRUPT_VECTORS'' @ continuation,
        tab @ ''POWER_CLOCK_Handler,'' @ continuation,
        tab @ ''RADIO_Handler,'' @ continuation]
       @ replicate 29 (tab @ ''0, /* Reserved */'' @ continuation)
       @ [tab @ ''0, /* Reserved */'',
          ''#define PERIPHERAL_INTERRUPT_HANDLERS'' @ continuation,
          ''void POWER_CLOCK_Handler(void) __attribute__ ((weak, alias(''
            @ [CHR 0x22] @ ''Dummy_Handler'' @ [CHR 0x22] @ '')));'' @ continuation,
          ''void RADIO_Handler(void) __attribute__ ((weak, alias(''
            @ [CHR 0x22] @ ''Dummy_Handler'' @ [CHR 0x22] @ '')));'']"
proof (intro conjI)
  show "get_peripheral_interrupts
     [\<lparr>periph_interrupts = [\<lparr>intr_name = ''POWER_CLOCK'', intr_value = 0\<rparr>]\<rparr>,
      \<lparr>periph_interrupts = [\<lparr>intr_name = ''RADIO'', intr_value = 1\<rparr>]\<rparr>]
     = Inr ([''POWER_CLOCK'', ''RADIO''] @ replicate 30 [])"
    by code_simp
  show "vector_lines [] ([''POWER_CLOCK'', ''RADIO''] @ replicate 30 [])
     = [''POWER_CLOCK_Handler,'', ''RADIO_Handler,''] @ replicate 30 ''0, /* Reserved */''"
    by code_simp
  show "handler_lines [] ([''POWER_CLOCK'', ''RADIO''] @ replicate 30 [])
     = [''void POWER_CLOCK_Handler(void) __attribute__ ((weak, alias(''
          @ [CHR 0x22] @ ''Dummy_Handler'' @ [CHR 0x22] @ '')));'',
        ''void RADIO_Handler(void) __attribute__ ((weak, alias(''
          @ [CHR 0x22] @ ''Dummy_Handler'' @ [CHR 0x22] @ '')));'']"
    by code_simp
  show "dump_macros ([''POWER_CLOCK'', ''RADIO''] @ replicate 30 []) []
     = [''/* Automatically generated by nRF51_codegen.py */'',
        ''#define PERIPHERAL_INTERRUPT_VECTORS'' @ continuation,
        tab @ ''POWER_CLOCK_Handler,'' @ continuation,
        tab @ ''RADIO_Handler,'' @ continuation]
       @ replicate 29 (tab @ ''0, /* Reserved */'' @ continuation)
       @ [tab @ ''0, /* Reserved */'',
          ''#define PERIPHERAL_INTERRUPT_HANDLERS'' @ continuation,
          ''void POWER_CLOCK_Handler(void) __attribute__ ((weak, alias(''
            @ [CHR 0x22] @ ''Dummy_Handler'' @ [CHR 0x22] @ '')));'' @ continuation,
          ''void RADIO_Handler(void) __attribute__ ((weak, alias(''
            @ [CHR 0x22] @ ''Dummy_Handler'' @ [CHR 0x22] @ '')));'']"
    by code_simp
qed

text \<open>
  C8. On every successful run, the target header path (and no other path) is overwritten
  with: the generated-file comment as its first line, the definition of
  PERIPHERAL_INTERRUPT_VECTORS with its 32 body lines, the definition of
  PERIPHERAL_INTERRUPT_HANDLERS with its body lines, and nothing else. These two are the
  only preprocessor lines of the output.
\<close>

theorem output_is_marker_and_two_macros:
  assumes "main ps fs = (Inr (), fs')"
  shows "\<exists>tbl vbody hbody.
      get_peripheral_interrupts ps = Inr tbl \<and> length tbl = 32
    \<and> fs' = fs(target_path \<mapsto>
          ''/* Automatically generated by nRF51_codegen.py */''
          # (''#define PERIPHERAL_INTERRUPT_VECTORS'' @ continuation) # vbody
          @ (''#define PERIPHERAL_INTERRUPT_HANDLERS'' @ continuation) # hbody)
    \<and> vbody = map (\<lambda>i. tab @ vector_lines [] tbl ! i @
                       (if i + 1 < length tbl then continuation else []))
                [0..<length tbl]
    \<and> hbody = map (\<lambda>k. handler_lines [] tbl ! k @
                       (if k + 1 < length (handler_lines [] tbl) then continuation else []))
                [0..<length (handler_lines [] tbl)]
    \<and> filter (\<lambda>l. take 1 l = ''#'')
          (''/* Automatically generated by nRF51_codegen.py */''
           # (''#define PERIPHERAL_INTERRUPT_VECTORS'' @ continuation) # vbody
           @ (''#define PERIPHERAL_INTERRUPT_HANDLERS'' @ continuation) # hbody)
        = [''#define PERIPHERAL_INTERRUPT_VECTORS'' @ continuation,
           ''#define PERIPHERAL_INTERRUPT_HANDLERS'' @ continuation]"
proof -
  from assms obtain tbl where tbl: "get_peripheral_interrupts ps = Inr tbl"
    and fs': "fs' = fs(target_path \<mapsto> dump_macros tbl [])"
    by (auto simp: main_def split: sum.splits)
  have len: "length tbl = 32" using tbl by (rule get_peripheral_interrupts_length)
  let ?vbody = "map (\<lambda>i. tab @ vector_lines [] tbl ! i @
                       (if i + 1 < length tbl then continuation else []))
                [0..<length tbl]"
  let ?hbody = "map (\<lambda>k. handler_lines [] tbl ! k @
                       (if k + 1 < length (handler_lines [] tbl) then continuation else []))
                [0..<length (handler_lines [] tbl)]"
  have vl: "length (vector_lines [] tbl) = length tbl" by (simp add: vector_lines_eq)
  have dm: "dump_macros tbl [] =
          ''/* Automatically generated by nRF51_codegen.py */''
          # (''#define PERIPHERAL_INTERRUPT_VECTORS'' @ continuation) # ?vbody
          @ (''#define PERIPHERAL_INTERRUPT_HANDLERS'' @ continuation) # ?hbody"
    by (subst dump_macros_eq) (simp add: vl)
  have fv: "filter (\<lambda>l. take 1 l = ''#'') ?vbody = []"
    by (simp add: filter_empty_conv tab_def)
  have fh: "filter (\<lambda>l. take 1 l = ''#'') ?hbody = []"
    by (simp add: filter_empty_conv handler_lines_eq weak_alias_def)
  have fl: "filter (\<lambda>l. take 1 l = ''#'')
          (''/* Automatically generated by nRF51_codegen.py */''
           # (''#define PERIPHERAL_INTERRUPT_VECTORS'' @ continuation) # ?vbody
           @ (''#define PERIPHERAL_INTERRUPT_HANDLERS'' @ continuation) # ?hbody)
        = [''#define PERIPHERAL_INTERRUPT_VECTORS'' @ continuation,
           ''#define PERIPHERAL_INTERRUPT_HANDLERS'' @ continuation]"
    unfolding filter.simps filter_append fv fh by simp
  from tbl len fs' [unfolded dm] fl show ?thesis by blast
qed

theorem output_is_marker_and_two_macros_witness:
  "main [\<lparr>periph_interrupts = [\<lparr>intr_name = ''POWER_CLOCK'', intr_value = 0\<rparr>]\<rparr>,
          \<lparr>periph_interrupts = [\<lparr>intr_name = ''RADIO'', intr_value = 1\<rparr>]\<rparr>] Map.empty
     = (Inr (), Map.empty(target_path \<mapsto>
           dump_macros ([''POWER_CLOCK'', ''RADIO''] @ replicate 30 []) []))
   \<and> (\<exists>tbl vbody hbody.
      get_peripheral_interrupts
         [\<lparr>periph_interrupts = [\<lparr>intr_name = ''POWER_CLOCK'', intr_value = 0\<rparr>]\<rparr>,
          \<lparr>periph_interrupts = [\<lparr>intr_name = ''RADIO'', intr_value = 1\<rparr>]\<rparr>] = Inr tbl \<and> length tbl = 32
    \<and> Map.empty(target_path \<mapsto> dump_macros ([''POWER_CLOCK'', ''RADIO''] @ replicate 30 []) [])
        = Map.empty(target_path \<mapsto>
          ''/* Automatically generated by nRF51_codegen.py */''
          # (''#define PERIPHERAL_INTERRUPT_VECTORS'' @ continuation) # vbody
          @ (''#define PERIPHERAL_INTERRUPT_HANDLERS'' @ continuation) # hbody)
    \<and> vbody = map (\<lambda>i. tab @ vector_lines [] tbl ! i @
                       (if i + 1 < length tbl then continuation else []))
                [0..<length tbl]
    \<and> hbody = map (\<lambda>k. handler_lines [] tbl ! k @
                       (if k + 1 < length (handler_lines [] tbl) then continuation else []))
                [0..<length (handler_lines [] tbl)]
    \<and> filter (\<lambda>l. take 1 l = ''#'')
          (''/* Automatically generated by nRF51_codegen.py */''
           # (''#define PERIPHERAL_INTERRUPT_VECTORS'' @ continuation) # vbody
           @ (''#define PERIPHERAL_INTERRUPT_HANDLERS'' @ continuation) # hbody)
        = [''#define PERIPHERAL_INTERRUPT_VECTORS'' @ continuation,
           ''#define PERIPHERAL_INTERRUPT_HANDLERS'' @ continuation])"
proof -
  have g: "get_peripheral_interrupts
         [\<lparr>periph_interrupts = [\<lparr>intr_name = ''POWER_CLOCK'', intr_value = 0\<rparr>]\<rparr>,
          \<lparr>periph_interrupts = [\<lparr>intr_name = ''RADIO'', intr_value = 1\<rparr>]\<rparr>]
       = Inr ([''POWER_CLOCK'', ''RADIO''] @ replicate 30 [])"
    by code_simp
  have h: "main [\<lparr>periph_interrupts = [\<lparr>intr_name = ''POWER_CLOCK'', intr_value = 0\<rparr>]\<rparr>,
          \<lparr>periph_interrupts = [\<lparr>intr_name = ''RADIO'', intr_value = 1\<rparr>]\<rparr>] Map.empty
     = (Inr (), Map.empty(target_path \<mapsto>
           dump_macros ([''POWER_CLOCK'', ''RADIO''] @ replicate 30 []) []))"
    unfolding main_def g by simp
  from output_is_marker_and_two_macros [OF h] have "(\<exists>tbl vbody hbody.
      get_peripheral_interrupts
         [\<lparr>periph_interrupts = [\<lparr>intr_name = ''POWER_CLOCK'', intr_value = 0\<rparr>]\<rparr>,
          \<lparr>periph_interrupts = [\<lparr>intr_name = ''RADIO'', intr_value = 1\<rparr>]\<rparr>] = Inr tbl \<and> length tbl = 32
    \<and> Map.empty(target_path \<mapsto> dump_macros ([''POWER_CLOCK'', ''RADIO''] @ replicate 30 []) [])
        = Map.empty(target_path \<mapsto>
          ''/* Automatically generated by nRF51_codegen.py */''
          # (''#define PERIPHERAL_INTERRUPT_VECTORS'' @ continuation) # vbody
          @ (''#define PERIPHERAL_INTERRUPT_HANDLERS'' @ continuation) # hbody)
    \<and> vbody = map (\<lambda>i. tab @ vector_lines [] tbl ! i @
                       (if i + 1 < length tbl then continuation else []))
                [0..<length tbl]
    \<and> hbody = map (\<lambda>k. handler_lines [] tbl ! k @
                       (if k + 1 < length (handler_lines [] tbl) then continuation else []))
                [0..<length (handler_lines [] tbl)]
    \<and> filter (\<lambda>l. take 1 l = ''#'')
          (''/* Automatically generated by nRF51_codegen.py */''
           # (''#define PERIPHERAL_INTERRUPT_VECTORS'' @ continuation) # vbody
           @ (''#define PERIPHERAL_INTERRUPT_HANDLERS'' @ continuation) # hbody)
        = [''#define PERIPHERAL_INTERRUPT_VECTORS'' @ continuation,
           ''#define PERIPHERAL_INTERRUPT_HANDLERS'' @ continuation])" .
  with h show ?thesis by (rule conjI)
qed

text \<open>
  C9. The builder indexes its list of 32 slots with each interrupt number as it is. One
  step raises IndexError exactly for a number below \<open>-32\<close> or above \<open>31\<close>; a number
  \<open>k\<close> in \<open>-32 .. -1\<close> indexes slot \<open>32 + k\<close> from the end instead of failing (so
  \<open>-1\<close> fills slot 31), in one step and in the builder as a whole. A device with an
  entry numbered below \<open>-32\<close> or above \<open>31\<close> makes the builder fail: at the first such
  entry it raises IndexError when the entries before it were recorded without error, and
  otherwise it has failed an assertion before. The builder raises IndexError exactly when
  such an entry is reached, so never when every number is in \<open>-32 .. 31\<close>, and in
  particular never when every number is in \<open>0 .. 31\<close>.
\<close>

theorem unguarded_index:
  "(length t = 32 \<longrightarrow>
      (record_interrupt t x = Inl IndexError) = (intr_value x < - 32 \<or> 32 \<le> intr_value x))
   \<and> (length t = 32 \<and> - 32 \<le> intr_value x \<and> intr_value x < 0
        \<and> t ! nat (32 + intr_value x) = [] \<longrightarrow>
      record_interrupt t x = Inr (t[nat (32 + intr_value x) := intr_name x]))
   \<and> ((\<exists>y\<in>set (concat (map periph_interrupts ps)). intr_value y < - 32 \<or> 32 \<le> intr_value y)
        \<longrightarrow> (\<exists>e. get_peripheral_interrupts ps = Inl e))
   \<and> ((\<forall>y\<in>set (concat (map periph_interrupts ps)). - 32 \<le> intr_value y \<and> intr_value y < 32)
        \<longrightarrow> get_peripheral_interrupts ps \<noteq> Inl IndexError)
   \<and> ((get_peripheral_interrupts ps = Inl IndexError) =
        (\<exists>pre y post u.
            concat (map periph_interrupts ps) = pre @ y # post
          \<and> for_interrupts (replicate 32 []) pre = Inr u
          \<and> (intr_value y < - 32 \<or> 32 \<le> intr_value y)))
   \<and> (concat (map periph_interrupts ps) = pre @ z # post
        \<and> (intr_value z < - 32 \<or> 32 \<le> intr_value z)
        \<and> (\<forall>y\<in>set pre. - 32 \<le> intr_value y \<and> intr_value y < 32) \<longrightarrow>
        get_peripheral_interrupts ps =
          (if \<exists>u. for_interrupts (replicate 32 []) pre = Inr u
           then Inl IndexError else Inl AssertionError))
   \<and> (- 32 \<le> k \<and> k < 0 \<longrightarrow>
        get_peripheral_interrupts
          [\<lparr>periph_interrupts = [\<lparr>intr_name = n, intr_value = k\<rparr>]\<rparr>]
        = Inr ((replicate 32 [])[nat (32 + k) := n]))"
proof (intro conjI impI)
  show "(record_interrupt t x = Inl IndexError) = (intr_value x < - 32 \<or> 32 \<le> intr_value x)"
    if "length t = 32"
    using that
    by (auto simp: record_interrupt_def py_index_None_iff py_index_Some_iff
        split: option.splits)
  show "record_interrupt t x = Inr (t[nat (32 + intr_value x) := intr_name x])"
    if "length t = 32 \<and> - 32 \<le> intr_value x \<and> intr_value x < 0
        \<and> t ! nat (32 + intr_value x) = []"
    using that by (simp add: record_interrupt_def py_index_def)
  let ?es = "concat (map periph_interrupts ps)"
  let ?t0 = "replicate 32 ([]::string)"
  have g: "get_peripheral_interrupts ps = for_interrupts ?t0 ?es"
    by (simp add: get_peripheral_interrupts_def for_peripherals_concat)
  show "\<exists>e. get_peripheral_interrupts ps = Inl e"
    if "\<exists>y\<in>set ?es. intr_value y < - 32 \<or> 32 \<le> intr_value y"
  proof -
    from that obtain y where y: "y \<in> set ?es" and r: "intr_value y < - 32 \<or> 32 \<le> intr_value y"
      by blast
    from r have "py_index (length ?t0) (intr_value y) = None"
      by (simp add: py_index_None_iff)
    from for_interrupts_out_of_range [OF y this] g show ?thesis by simp
  qed
  show "get_peripheral_interrupts ps \<noteq> Inl IndexError"
    if rng: "\<forall>y\<in>set ?es. - 32 \<le> intr_value y \<and> intr_value y < 32"
  proof
    assume "get_peripheral_interrupts ps = Inl IndexError"
    with g for_interrupts_IndexError [of ?t0 ?es]
    obtain y where y: "y \<in> set ?es" and n: "py_index (length ?t0) (intr_value y) = None"
      by auto
    from rng y have "- 32 \<le> intr_value y \<and> intr_value y < 32" by (rule bspec)
    with n show False by (simp add: py_index_None_iff)
  qed
  show "(get_peripheral_interrupts ps = Inl IndexError) =
        (\<exists>pre y post u. ?es = pre @ y # post \<and> for_interrupts ?t0 pre = Inr u
          \<and> (intr_value y < - 32 \<or> 32 \<le> intr_value y))"
    unfolding g using for_interrupts_IndexError_iff [of ?t0 ?es]
    by (simp add: py_index_None_iff)
  show "get_peripheral_interrupts ps =
          (if \<exists>u. for_interrupts ?t0 pre = Inr u
           then Inl IndexError else Inl AssertionError)"
    if h: "?es = pre @ z # post
        \<and> (intr_value z < - 32 \<or> 32 \<le> intr_value z)
        \<and> (\<forall>y\<in>set pre. - 32 \<le> intr_value y \<and> intr_value y < 32)"
  proof (cases "for_interrupts ?t0 pre")
    case (Inr u)
    from h have "py_index (length ?t0) (intr_value z) = None"
      by (simp add: py_index_None_iff)
    with for_interrupts_length [OF Inr] have "record_interrupt u z = Inl IndexError"
      by (simp add: record_interrupt_def)
    with for_interrupts_split [OF Inr, of z post] h g Inr show ?thesis by simp
  next
    case (Inl e)
    have "e \<noteq> IndexError"
    proof
      assume "e = IndexError"
      with Inl for_interrupts_IndexError [of ?t0 pre]
      obtain y where y: "y \<in> set pre" and n: "py_index (length ?t0) (intr_value y) = None"
        by auto
      from h y have "- 32 \<le> intr_value y \<and> intr_value y < 32" by blast
      with n show False by (simp add: py_index_None_iff)
    qed
    with py_error_cases [of e] have "e = AssertionError" by simp
    with Inl for_interrupts_prefix_error [of ?t0 pre e "z # post"] h g show ?thesis by simp
  qed
  show "get_peripheral_interrupts
          [\<lparr>periph_interrupts = [\<lparr>intr_name = n, intr_value = k\<rparr>]\<rparr>]
        = Inr ((replicate 32 [])[nat (32 + k) := n])"
    if h: "- 32 \<le> k \<and> k < 0"
  proof -
    from h have "nat (32 + k) < 32" by linarith
    then have "replicate 32 ([]::string) ! nat (32 + k) = []" by simp
    with h show ?thesis
      by (simp add: get_peripheral_interrupts_def record_interrupt_def py_index_def)
  qed
qed

theorem unguarded_index_witness:
  "length (replicate 32 ([]::string)) = 32
   \<and> record_interrupt (replicate 32 []) \<lparr>intr_name = ''RTC0'', intr_value = - 1\<rparr>
       = Inr ((replicate 32 [])[31 := ''RTC0''])
   \<and> record_interrupt (replicate 32 []) \<lparr>intr_name = ''RTC0'', intr_value = - 1\<rparr>
       \<noteq> Inl IndexError
   \<and> get_peripheral_interrupts
        [\<lparr>periph_interrupts = [\<lparr>intr_name = ''RTC0'', intr_value = - 1\<rparr>]\<rparr>]
       = Inr ((replicate 32 [])[31 := ''RTC0''])
   \<and> concat (map periph_interrupts
        [\<lparr>periph_interrupts = [\<lparr>intr_name = ''RADIO'', intr_value = 1\<rparr>,
                               \<lparr>intr_name = ''RTC0'', intr_value = 32\<rparr>]\<rparr>])
       = [\<lparr>intr_name = ''RADIO'', intr_value = 1\<rparr>]
         @ \<lparr>intr_name = ''RTC0'', intr_value = 32\<rparr> # []
   \<and> for_interrupts (replicate 32 []) [\<lparr>intr_name = ''RADIO'', intr_value = 1\<rparr>]
       = Inr ((replicate 32 [])[1 := ''RADIO''])
   \<and> get_peripheral_interrupts
        [\<lparr>periph_interrupts = [\<lparr>intr_name = ''RADIO'', intr_value = 1\<rparr>,
                               \<lparr>intr_name = ''RTC0'', intr_value = 32\<rparr>]\<rparr>]
       = Inl IndexError"
proof -
  have d: "concat (map periph_interrupts
        [\<lparr>periph_interrupts = [\<lparr>intr_name = ''RADIO'', intr_value = 1\<rparr>,
                               \<lparr>intr_name = ''RTC0'', intr_value = 32\<rparr>]\<rparr>])
       = [\<lparr>intr_name = ''RADIO'', intr_value = 1\<rparr>]
         @ \<lparr>intr_name = ''RTC0'', intr_value = 32\<rparr> # []"
    by simp
  have e: "for_interrupts (replicate 32 []) [\<lparr>intr_name = ''RADIO'', intr_value = 1\<rparr>]
       = Inr ((replicate 32 [])[1 := ''RADIO''])"
    by (simp add: record_interrupt_def py_index_def)
  have r: "\<forall>y\<in>set [\<lparr>intr_name = ''RADIO'', intr_value = 1\<rparr>].
      - 32 \<le> intr_value y \<and> intr_value y < 32"
    by simp
  have o: "intr_value \<lparr>intr_name = ''RTC0'', intr_value = 32\<rparr> < - 32
      \<or> 32 \<le> intr_value \<lparr>intr_name = ''RTC0'', intr_value = 32\<rparr>"
    by simp
  note wrap = unguarded_index
    [where t = "replicate 32 []" and x = "\<lparr>intr_name = ''RTC0'', intr_value = - 1\<rparr>"
       and k = "- 1" and n = "''RTC0''"]
  note bad = unguarded_index
    [where ps = "[\<lparr>periph_interrupts = [\<lparr>intr_name = ''RADIO'', intr_value = 1\<rparr>,
                               \<lparr>intr_name = ''RTC0'', intr_value = 32\<rparr>]\<rparr>]"
       and pre = "[\<lparr>intr_name = ''RADIO'', intr_value = 1\<rparr>]"
       and z = "\<lparr>intr_name = ''RTC0'', intr_value = 32\<rparr>" and post = "[]"]
  from wrap have w: "record_interrupt (replicate 32 []) \<lparr>intr_name = ''RTC0'', intr_value = - 1\<rparr>
       = Inr ((replicate 32 [])[31 := ''RTC0''])
   \<and> record_interrupt (replicate 32 []) \<lparr>intr_name = ''RTC0'', intr_value = - 1\<rparr>
       \<noteq> Inl IndexError
   \<and> get_peripheral_interrupts
        [\<lparr>periph_interrupts = [\<lparr>intr_name = ''RTC0'', intr_value = - 1\<rparr>]\<rparr>]
       = Inr ((replicate 32 [])[31 := ''RTC0''])"
    by simp
  from bad [THEN conjunct2, THEN conjunct2, THEN conjunct2, THEN conjunct2, THEN conjunct2,
      THEN conjunct1] d e r o
  have b: "get_peripheral_interrupts
        [\<lparr>periph_interrupts = [\<lparr>intr_name = ''RADIO'', intr_value = 1\<rparr>,
                               \<lparr>intr_name = ''RTC0'', intr_value = 32\<rparr>]\<rparr>]
       = Inl IndexError"
    by simp
  from w d e b show ?thesis by simp
qed

text \<open>
  A negative number below \<open>-32\<close> does not index from the end but raises IndexError, and
  a device with an entry numbered 32 can fail with an assertion error before that entry is
  reached.
\<close>

theorem unguarded_index_counterexample:
  "get_peripheral_interrupts
     [\<lparr>periph_interrupts = [\<lparr>intr_name = ''RTC0'', intr_value = - 33\<rparr>]\<rparr>]
     = Inl IndexError
   \<and> get_peripheral_interrupts
     [\<lparr>periph_interrupts = [\<lparr>intr_name = ''RADIO'', intr_value = 1\<rparr>,
                            \<lparr>intr_name = ''UART0'', intr_value = 1\<rparr>,
                            \<lparr>intr_name = ''RTC0'', intr_value = 32\<rparr>]\<rparr>]
     = Inl AssertionError"
  by code_simp

text \<open>
  C10. An entry whose name is the empty string leaves the table as it is when its slot is
  empty, and fails the assertion when its slot holds a name. So an empty name that comes
  first neither fills the slot nor makes a later non-empty name for the same slot fail:
  that name fills the slot. In the reverse order, the empty name that comes after the
  non-empty one fails the assertion and the builder aborts.
\<close>

theorem empty_name_is_unfilled:
  "(py_index (length t) k = Some j \<longrightarrow>
      record_interrupt t \<lparr>intr_name = [], intr_value = k\<rparr>
        = (if t ! j = [] then Inr t else Inl AssertionError))
   \<and> (py_index 32 k = Some j \<and> n \<noteq> [] \<longrightarrow>
      get_peripheral_interrupts
        [\<lparr>periph_interrupts = [\<lparr>intr_name = [], intr_value = k\<rparr>]\<rparr>,
         \<lparr>periph_interrupts = [\<lparr>intr_name = n, intr_value = k\<rparr>]\<rparr>]
        = Inr ((replicate 32 [])[j := n]))
   \<and> (py_index 32 k = Some j \<and> n \<noteq> [] \<longrightarrow>
      get_peripheral_interrupts
        [\<lparr>periph_interrupts = [\<lparr>intr_name = n, intr_value = k\<rparr>]\<rparr>,
         \<lparr>periph_interrupts = [\<lparr>intr_name = [], intr_value = k\<rparr>]\<rparr>]
        = Inl AssertionError)"
proof (intro conjI impI)
  show "record_interrupt t \<lparr>intr_name = [], intr_value = k\<rparr>
        = (if t ! j = [] then Inr t else Inl AssertionError)"
    if "py_index (length t) k = Some j"
  proof -
    have "t[j := []] = t" if "t ! j = []"
      using that list_update_id [of t j] by simp
    with \<open>py_index (length t) k = Some j\<close> show ?thesis
      by (auto simp: record_interrupt_def)
  qed
  show "get_peripheral_interrupts
        [\<lparr>periph_interrupts = [\<lparr>intr_name = [], intr_value = k\<rparr>]\<rparr>,
         \<lparr>periph_interrupts = [\<lparr>intr_name = n, intr_value = k\<rparr>]\<rparr>]
        = Inr ((replicate 32 [])[j := n])"
    if h: "py_index 32 k = Some j \<and> n \<noteq> []"
  proof -
    from h have j: "j < 32" by (auto dest: py_index_less)
    then have e: "(replicate 32 ([]::string))[j := []] = replicate 32 []"
      using list_update_id [of "replicate 32 ([]::string)" j] by simp
    from h j e show ?thesis
      by (simp add: get_peripheral_interrupts_def record_interrupt_def)
  qed
  show "get_peripheral_interrupts
        [\<lparr>periph_interrupts = [\<lparr>intr_name = n, intr_value = k\<rparr>]\<rparr>,
         \<lparr>periph_interrupts = [\<lparr>intr_name = [], intr_value = k\<rparr>]\<rparr>]
        = Inl AssertionError"
    if h: "py_index 32 k = Some j \<and> n \<noteq> []"
  proof -
    from h have j: "j < 32" by (auto dest: py_index_less)
    with h show ?thesis
      by (simp add: get_peripheral_interrupts_def record_interrupt_def)
  qed
qed

theorem empty_name_is_unfilled_witness:
  "py_index (length [''POWER_CLOCK'', ''RADIO'']) 1 = Some 1
   \<and> record_interrupt [''POWER_CLOCK'', ''RADIO''] \<lparr>intr_name = [], intr_value = 1\<rparr>
       = Inl AssertionError
   \<and> py_index 32 3 = Some 3 \<and> ''SPI0_TWI0'' \<noteq> []
   \<and> get_peripheral_interrupts
        [\<lparr>periph_interrupts = [\<lparr>intr_name = [], intr_value = 3\<rparr>]\<rparr>,
         \<lparr>periph_interrupts = [\<lparr>intr_name = ''SPI0_TWI0'', intr_value = 3\<rparr>]\<rparr>]
       = Inr ((replicate 32 [])[3 := ''SPI0_TWI0''])
   \<and> get_peripheral_interrupts
        [\<lparr>periph_interrupts = [\<lparr>intr_name = ''SPI0_TWI0'', intr_value = 3\<rparr>]\<rparr>,
         \<lparr>periph_interrupts = [\<lparr>intr_name = [], intr_value = 3\<rparr>]\<rparr>]
       = Inl AssertionError"
proof -
  have a: "py_index (length [''POWER_CLOCK'', ''RADIO'']) 1 = Some 1"
    by (simp add: py_index_def)
  have b: "py_index 32 3 = Some 3" by (simp add: py_index_def)
  from empty_name_is_unfilled [of "[''POWER_CLOCK'', ''RADIO'']" 1 1 "''SPI0_TWI0''"]
    empty_name_is_unfilled [of "[''POWER_CLOCK'', ''RADIO'']" 3 3 "''SPI0_TWI0''"] a b
  show ?thesis by simp
qed

end
